theory Spec2Isabelle
  imports Main "HOL-Library.Char_ord" "HOL-Library.List_Lexorder"
begin

section \<open>AdStash: a shallow embedding of the API routes and the content script\<close>

text \<open>
  The route handlers of the application are modelled as functions on an explicit database
  state. Everything the handlers obtain from outside (the clock, random numbers, fresh
  row ids, the SHA-256 digest, the storage provider, the SQL pattern operator) is a
  parameter. Strings are lists of characters; a uuid is a string; a time stamp is a number
  of milliseconds.
\<close>

subsection \<open>Strings\<close>

type_synonym uuid = string
type_synonym timestamp = nat

text \<open>\<^verbatim>\<open>s.startsWith(p)\<close> and \<^verbatim>\<open>s.includes(p)\<close>.\<close>

definition startsWith :: "string \<Rightarrow> string \<Rightarrow> bool" where
  "startsWith s p = (take (length p) s = p)"

fun includes_str :: "string \<Rightarrow> string \<Rightarrow> bool" where
  "includes_str [] p = (p = [])"
| "includes_str (c # cs) p = (startsWith (c # cs) p \<or> includes_str cs p)"

text \<open>A truthy string is a non-empty one; \<open>x || null\<close> on an optional string.\<close>

definition truthy_str :: "string option \<Rightarrow> bool" where
  "truthy_str x = (case x of None \<Rightarrow> False | Some s \<Rightarrow> s \<noteq> [])"

definition str_or_null :: "string option \<Rightarrow> string option" where
  "str_or_null x = (if truthy_str x then x else None)"

text \<open>A truthy number is a non-zero one; \<open>x || null\<close> on an optional whole number.\<close>

definition truthy_num :: "int option \<Rightarrow> bool" where
  "truthy_num x = (case x of None \<Rightarrow> False | Some n \<Rightarrow> n \<noteq> 0)"

definition num_or_null :: "int option \<Rightarrow> int option" where
  "num_or_null x = (if truthy_num x then x else None)"

text \<open>
  The values the database accepts for an \<open>integer\<close> column (32 bits) and for a \<open>bigint\<close>
  column (64 bits); null is accepted by both. A statement with a value outside the range
  fails as a whole.
\<close>

definition int4_ok :: "int option \<Rightarrow> bool" where
  "int4_ok x = (case x of None \<Rightarrow> True | Some n \<Rightarrow> - 2147483648 \<le> n \<and> n \<le> 2147483647)"

definition int8_ok :: "int option \<Rightarrow> bool" where
  "int8_ok x =
     (case x of None \<Rightarrow> True | Some n \<Rightarrow> - 9223372036854775808 \<le> n \<and> n \<le> 9223372036854775807)"

text \<open>The decimal rendering of a non-negative whole number, as a template literal prints it.\<close>

definition digit_char :: "nat \<Rightarrow> char" where
  "digit_char d = ''0123456789'' ! d"

function show_nat :: "nat \<Rightarrow> string" where
  "show_nat n = (if n < 10 then [digit_char n] else show_nat (n div 10) @ [digit_char (n mod 10)])"
  by pat_completeness auto
termination
  by (relation "measure (\<lambda>n. n)") auto

definition show_int :: "int \<Rightarrow> string" where
  "show_int i = (if i < 0 then CHR ''-'' # show_nat (nat (- i)) else show_nat (nat i))"

text \<open>
  \<open>String.prototype.trim\<close>: the white space and line terminator characters among the 8-bit
  characters are the space, tab, line feed, vertical tab, form feed, carriage return and
  the no-break space.
\<close>

definition is_space :: "char \<Rightarrow> bool" where
  "is_space c = (c \<in> set [CHR '' '', CHR 0x09, CHR 0x0A, CHR 0x0B, CHR 0x0C, CHR 0x0D, CHR 0xA0])"

definition trim :: "string \<Rightarrow> string" where
  "trim s = rev (dropWhile is_space (rev (dropWhile is_space s)))"

subsection \<open>Storage paths (lib/supabase/storage)\<close>

definition ASSETS_BUCKET :: string where
  "ASSETS_BUCKET = ''assets''"

definition PREVIEWS_BUCKET :: string where
  "PREVIEWS_BUCKET = ''previews''"

text \<open>The characters the regular expression \<^verbatim>\<open>[^a-zA-Z0-9.-]\<close> leaves alone.\<close>

definition safe_char :: "char \<Rightarrow> bool" where
  "safe_char c =
     (let n = (of_char c :: nat)
      in (97 \<le> n \<and> n \<le> 122) \<or> (65 \<le> n \<and> n \<le> 90) \<or> (48 \<le> n \<and> n \<le> 57)
         \<or> c = CHR ''.'' \<or> c = CHR ''-'')"

definition sanitize :: "string \<Rightarrow> string" where
  "sanitize filename = map (\<lambda>c. if safe_char c then c else CHR ''_'') filename"

text \<open>
  \<open>generateAssetPath userId filename prefix\<close>. The clock value \<open>now\<close> is \<open>Date.now()\<close>
  and \<open>rnd36\<close> is the string \<open>Math.random().toString(36)\<close>, of which the code keeps
  \<open>substring(2, 8)\<close>.
\<close>

definition randomSuffix :: "string \<Rightarrow> string" where
  "randomSuffix rnd36 = take 6 (drop 2 rnd36)"

definition generateAssetPath :: "timestamp \<Rightarrow> string \<Rightarrow> uuid \<Rightarrow> string \<Rightarrow> string option \<Rightarrow> string" where
  "generateAssetPath now rnd36 userId filename prefix =
     (let pathPrefix = (case prefix of None \<Rightarrow> [] | Some p \<Rightarrow> if p = [] then [] else p @ ''/'')
      in pathPrefix @ userId @ ''/'' @ show_nat now @ ''-'' @ randomSuffix rnd36 @ ''-''
           @ sanitize filename)"

declare show_nat.simps [simp del]

subsection \<open>The schema (db/schema)\<close>

datatype asset_status = Draft | Uploading | Ready | Failed

datatype capture_method = WebUpload | ExtensionCapture

text \<open>
  The columns of the \<open>assets\<close> table, but for \<open>extra\<close>, which no route writes. The
  numeric column \<open>durationSeconds\<close> holds the string the route passes to the driver.
\<close>

record asset =
  asset_id :: uuid
  ownerId :: uuid
  createdAt :: timestamp
  updatedAt :: timestamp
  status :: asset_status
  captureMethod :: capture_method
  sourcePlatform :: string
  captureUrl :: "string option"
  mediaUrl :: "string option"
  originalFilename :: string
  mimeType :: string
  sizeBytes :: "int option"
  width :: "int option"
  height :: "int option"
  durationSeconds :: "string option"
  storageBucket :: string
  storagePath :: string
  previewBucket :: "string option"
  previewPath :: "string option"
  sha256 :: "string option"
  asset_notes :: "string option"

record tag =
  tag_id :: uuid
  tag_ownerId :: uuid
  tag_name :: string
  tag_color :: string
  tag_createdAt :: timestamp

record pat =
  pat_id :: uuid
  pat_ownerId :: uuid
  pat_name :: string
  tokenHash :: string
  tokenPrefix :: string
  pat_createdAt :: timestamp
  lastUsedAt :: "timestamp option"
  revokedAt :: "timestamp option"
  expiresAt :: "timestamp option"

text \<open>The database: the four tables the routes touch; an asset-tag row is a pair (assetId, tagId).\<close>

record db =
  assets :: "asset list"
  assetTags :: "(uuid \<times> uuid) list"
  tags :: "tag list"
  personalAccessTokens :: "pat list"

subsection \<open>What the routes call outside the repository\<close>

record signed_url =
  signedUrl :: string
  su_token :: string
  su_path :: string

text \<open>
  \<open>hashPAT\<close> is the hexadecimal SHA-256 digest; \<open>hostname_of\<close> is \<open>new URL(url).hostname\<close> in
  lower case (\<open>None\<close> when the URL constructor throws); \<open>ilike e text pattern\<close> is the SQL
  operator; \<open>parseDate\<close> is \<open>new Date(s)\<close> (\<open>None\<close> for an invalid date); the two signing
  functions are the storage provider's (\<open>None\<close> when the helper throws);
  \<open>remove_fails\<close> says for which objects the provider's \<open>remove\<close> reports an error.
\<close>

record env =
  hashPAT :: "string \<Rightarrow> string"
  hostname_of :: "string \<Rightarrow> string option"
  ilike :: "string \<Rightarrow> string \<Rightarrow> bool"
  parseDate :: "string \<Rightarrow> timestamp option"
  createSignedUploadUrl :: "string \<Rightarrow> string \<Rightarrow> signed_url option"
  createSignedDownloadUrl :: "string \<Rightarrow> string \<Rightarrow> string option"
  remove_fails :: "string \<Rightarrow> string \<Rightarrow> bool"

text \<open>The responses that are not a success: status 401, 400, 404 and 500 with their message.\<close>

datatype http_error = Unauthorized | BadRequest string | NotFound string | ServerError string

subsection \<open>Storage objects and \<open>deleteFile\<close>\<close>

text \<open>
  The storage provider holds objects (bucket, path); \<open>remove_log\<close> records every removal
  the routes ask for, whether it succeeds or not.
\<close>

record storage =
  objects :: "(string \<times> string) list"
  remove_log :: "(string \<times> string) list"

definition deleteFile :: "env \<Rightarrow> string \<Rightarrow> string \<Rightarrow> storage \<Rightarrow> (string + unit) \<times> storage" where
  "deleteFile e bucket path s =
     (if remove_fails e bucket path
      then (Inl ''Failed to delete file'', s\<lparr>remove_log := remove_log s @ [(bucket, path)]\<rparr>)
      else (Inr (), s\<lparr>objects := filter (\<lambda>ob. ob \<noteq> (bucket, path)) (objects s),
                       remove_log := remove_log s @ [(bucket, path)]\<rparr>))"

subsection \<open>Source detection (db/schema/sources)\<close>

definition DEFAULT_SOURCES :: "(string \<times> string list) list" where
  "DEFAULT_SOURCES =
     [(''facebook'', [''facebook.com'', ''fb.com'', ''fb.me'']),
      (''instagram'', [''instagram.com'', ''instagr.am'']),
      (''tiktok'', [''tiktok.com'', ''vm.tiktok.com'']),
      (''youtube'', [''youtube.com'', ''youtu.be'']),
      (''twitter'', [''twitter.com'', ''x.com'', ''t.co'']),
      (''linkedin'', [''linkedin.com'']),
      (''pinterest'', [''pinterest.com'', ''pin.it'']),
      (''snapchat'', [''snapchat.com'']),
      (''other'', [])]"

definition detectSourceFromUrl :: "env \<Rightarrow> string \<Rightarrow> string" where
  "detectSourceFromUrl e url =
     (case hostname_of e url of
        None \<Rightarrow> ''other''
      | Some hostname \<Rightarrow>
          (case filter (\<lambda>source. list_ex (\<lambda>pattern. includes_str hostname pattern) (snd source))
                  DEFAULT_SOURCES of
             [] \<Rightarrow> ''other''
           | source # _ \<Rightarrow> fst source))"

subsection \<open>Asset listing: GET /api/assets\<close>

text \<open>The query parameters after \<open>parseQueryParams\<close>; \<open>page\<close> and \<open>limit\<close> are the parsed integers.\<close>

record query_params =
  qp_page :: int
  qp_limit :: int
  qp_search :: string
  qp_sourcePlatform :: string
  qp_mimeTypeFilter :: string
  qp_tagIds :: "string list"
  qp_fromDate :: string
  qp_toDate :: string

text \<open>The conditions \<open>buildWhereConditions\<close> can build on the \<open>assets\<close> table.\<close>

datatype asset_cond =
    OwnerIs uuid
  | StatusIs asset_status
  | SearchLike string
  | SourceIs string
  | MimeLike string
  | CreatedGte "timestamp option"
  | CreatedLte "timestamp option"

definition buildWhereConditions :: "env \<Rightarrow> uuid \<Rightarrow> query_params \<Rightarrow> asset_cond list" where
  "buildWhereConditions e userId params =
     [OwnerIs userId, StatusIs Ready]
     @ (if qp_search params \<noteq> [] then [SearchLike (''%'' @ qp_search params @ ''%'')] else [])
     @ (if qp_sourcePlatform params \<noteq> [] then [SourceIs (qp_sourcePlatform params)] else [])
     @ (if qp_mimeTypeFilter params = ''image'' then [MimeLike ''image/%'']
        else if qp_mimeTypeFilter params = ''video'' then [MimeLike ''video/%''] else [])
     @ (if qp_fromDate params \<noteq> [] then [CreatedGte (parseDate e (qp_fromDate params))] else [])
     @ (if qp_toDate params \<noteq> [] then [CreatedLte (parseDate e (qp_toDate params))] else [])"

text \<open>
  A condition on a row. \<open>SearchLike\<close> is the disjunction of the pattern match on the file
  name and on the notes (a null column never matches).
\<close>

fun cond_holds :: "env \<Rightarrow> asset_cond \<Rightarrow> asset \<Rightarrow> bool" where
  "cond_holds e (OwnerIs u) a = (ownerId a = u)"
| "cond_holds e (StatusIs s) a = (status a = s)"
| "cond_holds e (SearchLike p) a =
     (ilike e (originalFilename a) p
      \<or> (case asset_notes a of None \<Rightarrow> False | Some n \<Rightarrow> ilike e n p))"
| "cond_holds e (SourceIs s) a = (sourcePlatform a = s)"
| "cond_holds e (MimeLike p) a = ilike e (mimeType a) p"
| "cond_holds e (CreatedGte t) a = (case t of None \<Rightarrow> False | Some t' \<Rightarrow> t' \<le> createdAt a)"
| "cond_holds e (CreatedLte t) a = (case t of None \<Rightarrow> False | Some t' \<Rightarrow> createdAt a \<le> t')"

text \<open>An invalid date cannot be sent to the database: the query throws.\<close>

fun cond_valid :: "asset_cond \<Rightarrow> bool" where
  "cond_valid (CreatedGte None) = False"
| "cond_valid (CreatedLte None) = False"
| "cond_valid _ = True"

text \<open>
  The sub-query of the tag filter: the asset-tag rows whose tag is one of the requested
  ids, grouped by asset, keeping the groups whose number of distinct tag ids is the length
  of the requested list.
\<close>

definition assetsWithTags :: "(uuid \<times> uuid) list \<Rightarrow> string list \<Rightarrow> uuid list" where
  "assetsWithTags links tagIds =
     (let matched = filter (\<lambda>l. snd l \<in> set tagIds) links
      in filter (\<lambda>a. length (remdups (map snd (filter (\<lambda>l. fst l = a) matched))) = length tagIds)
           (remdups (map fst matched)))"

text \<open>\<open>orderBy(desc(createdAt))\<close>; rows of equal time keep their table order.\<close>

definition newest_first :: "asset list \<Rightarrow> asset list" where
  "newest_first xs = sort_key (\<lambda>a. - int (createdAt a)) xs"

text \<open>The inner join of asset-tag rows with their tag rows, for the asset ids \<open>P\<close> selects.\<close>

definition join_tags :: "db \<Rightarrow> (uuid \<Rightarrow> bool) \<Rightarrow> (uuid \<times> tag) list" where
  "join_tags d P =
     concat (map (\<lambda>l. map (\<lambda>t. (fst l, t)) (filter (\<lambda>t. tag_id t = snd l) (tags d)))
               (filter (\<lambda>l. P (fst l)) (assetTags d)))"

definition getAssetsWithTags :: "db \<Rightarrow> uuid list \<Rightarrow> (uuid \<rightharpoonup> tag list)" where
  "getAssetsWithTags d assetIds =
     (if assetIds = [] then Map.empty
      else foldl (\<lambda>tagsByAsset row.
                   tagsByAsset(fst row \<mapsto>
                     (case tagsByAsset (fst row) of None \<Rightarrow> [] | Some existing \<Rightarrow> existing) @ [snd row]))
             Map.empty (join_tags d (\<lambda>a. a \<in> set assetIds)))"

record asset_list_item =
  li_asset :: asset
  li_previewUrl :: "string option"
  li_tags :: "tag list"

definition preview_url :: "env \<Rightarrow> asset \<Rightarrow> string option" where
  "preview_url e a =
     (if truthy_str (previewBucket a) \<and> truthy_str (previewPath a)
      then (case (previewBucket a, previewPath a) of
              (Some b, Some p) \<Rightarrow> createSignedDownloadUrl e b p
            | _ \<Rightarrow> None)
      else None)"

definition addPreviewUrls :: "env \<Rightarrow> asset list \<Rightarrow> (uuid \<rightharpoonup> tag list) \<Rightarrow> asset_list_item list" where
  "addPreviewUrls e assetResults tagsByAsset =
     map (\<lambda>a. \<lparr>li_asset = a, li_previewUrl = preview_url e a,
                li_tags = (case tagsByAsset (asset_id a) of None \<Rightarrow> [] | Some ts \<Rightarrow> ts)\<rparr>)
       assetResults"

text \<open>
  \<open>totalPages\<close> is \<open>Math.ceil(totalCount / limit)\<close>: with a limit of 0 the quotient is not a
  finite number (\<open>None\<close>), and \<open>page < totalPages\<close> is then true exactly when the count is
  positive.
\<close>

record pagination =
  pg_page :: int
  pg_limit :: int
  pg_totalCount :: nat
  pg_totalPages :: "int option"
  pg_hasMore :: bool

record assets_page =
  ap_assets :: "asset_list_item list"
  ap_pagination :: pagination

text \<open>
  The handler. The database refuses a negative LIMIT or OFFSET and the driver an invalid
  date: the handler's catch turns either into status 500.
\<close>

definition assets_GET :: "env \<Rightarrow> uuid option \<Rightarrow> query_params \<Rightarrow> db \<Rightarrow> http_error + assets_page" where
  "assets_GET e user params d =
     (case user of
        None \<Rightarrow> Inl Unauthorized
      | Some userId \<Rightarrow>
          (let offset = (qp_page params - 1) * qp_limit params;
               conditions = buildWhereConditions e userId params;
               matching = filter (\<lambda>a. list_all (\<lambda>c. cond_holds e c a) conditions) (assets d);
               selected =
                 (if qp_tagIds params \<noteq> []
                  then filter (\<lambda>a. asset_id a \<in> set (assetsWithTags (assetTags d) (qp_tagIds params)))
                         matching
                  else matching)
           in if \<not> list_all cond_valid conditions \<or> qp_limit params < 0 \<or> offset < 0
              then Inl (ServerError ''Failed to fetch assets'')
              else
                (let assetResults = take (nat (qp_limit params)) (drop (nat offset) (newest_first selected));
                     tagsByAsset = getAssetsWithTags d (map asset_id assetResults);
                     totalCount = length matching;
                     totalPages =
                       (if qp_limit params = 0 then None
                        else Some ((int totalCount + qp_limit params - 1) div qp_limit params))
                 in Inr \<lparr>ap_assets = addPreviewUrls e assetResults tagsByAsset,
                         ap_pagination =
                           \<lparr>pg_page = qp_page params, pg_limit = qp_limit params,
                            pg_totalCount = totalCount, pg_totalPages = totalPages,
                            pg_hasMore =
                              (case totalPages of None \<Rightarrow> 0 < totalCount
                               | Some n \<Rightarrow> qp_page params < n)\<rparr>\<rparr>)))"

subsection \<open>One asset: GET, PATCH and DELETE /api/assets/:id\<close>

record asset_detail =
  ad_asset :: asset
  ad_assetUrl :: "string option"
  ad_previewUrl :: "string option"
  ad_tags :: "tag list"

definition owned_asset :: "uuid \<Rightarrow> uuid \<Rightarrow> asset \<Rightarrow> bool" where
  "owned_asset id' userId a = (asset_id a = id' \<and> ownerId a = userId)"

definition asset_GET :: "env \<Rightarrow> uuid option \<Rightarrow> uuid \<Rightarrow> db \<Rightarrow> http_error + asset_detail" where
  "asset_GET e user id' d =
     (case user of
        None \<Rightarrow> Inl Unauthorized
      | Some userId \<Rightarrow>
          (case filter (owned_asset id' userId) (assets d) of
             [] \<Rightarrow> Inl (NotFound ''Asset not found'')
           | asset # _ \<Rightarrow>
               Inr \<lparr>ad_asset = asset,
                    ad_assetUrl = createSignedDownloadUrl e (storageBucket asset) (storagePath asset),
                    ad_previewUrl = preview_url e asset,
                    ad_tags = map snd (join_tags d (\<lambda>a. a = id'))\<rparr>))"

text \<open>
  The body of a PATCH: \<open>pb_notes\<close> is \<open>None\<close> when the key is undefined and \<open>Some None\<close> when
  it is null; \<open>pb_tagIds\<close> is \<open>Some\<close> when the value is an array.
\<close>

record patch_body =
  pb_notes :: "string option option"
  pb_sourcePlatform :: "string option"
  pb_tagIds :: "uuid list option"

definition patch_update :: "timestamp \<Rightarrow> patch_body \<Rightarrow> asset \<Rightarrow> asset" where
  "patch_update now body a =
     a\<lparr>updatedAt := now,
       asset_notes := (case pb_notes body of None \<Rightarrow> asset_notes a | Some n \<Rightarrow> n),
       sourcePlatform :=
         (case pb_sourcePlatform body of
            None \<Rightarrow> sourcePlatform a
          | Some sp \<Rightarrow> if sp = [] then sourcePlatform a else sp)\<rparr>"

definition asset_PATCH :: "timestamp \<Rightarrow> uuid option \<Rightarrow> uuid \<Rightarrow> patch_body \<Rightarrow> db \<Rightarrow> (http_error + asset) \<times> db" where
  "asset_PATCH now user id' body d =
     (case user of
        None \<Rightarrow> (Inl Unauthorized, d)
      | Some userId \<Rightarrow>
          (let returning = map (patch_update now body) (filter (owned_asset id' userId) (assets d));
               d1 = d\<lparr>assets := map (\<lambda>a. if owned_asset id' userId a then patch_update now body a else a)
                                  (assets d)\<rparr>
           in case returning of
                [] \<Rightarrow> (Inl (NotFound ''Asset not found''), d1)
              | updatedAsset # _ \<Rightarrow>
                  (Inr updatedAsset,
                   (case pb_tagIds body of
                      None \<Rightarrow> d1
                    | Some tagIds \<Rightarrow>
                        d1\<lparr>assetTags := filter (\<lambda>l. fst l \<noteq> id') (assetTags d1)
                                           @ map (\<lambda>tagId. (id', tagId)) tagIds\<rparr>))))"

text \<open>
  DELETE. Each \<open>deleteFile\<close> sits in its own \<open>try\<close> whose \<open>catch\<close> only logs a warning, so
  the outcome of the call is dropped and the handler goes on with the new storage state.
\<close>

definition asset_DELETE :: "env \<Rightarrow> uuid option \<Rightarrow> uuid \<Rightarrow> db \<Rightarrow> storage \<Rightarrow> (http_error + unit) \<times> db \<times> storage" where
  "asset_DELETE e user id' d s =
     (case user of
        None \<Rightarrow> (Inl Unauthorized, d, s)
      | Some userId \<Rightarrow>
          (case filter (owned_asset id' userId) (assets d) of
             [] \<Rightarrow> (Inl (NotFound ''Asset not found''), d, s)
           | asset # _ \<Rightarrow>
               (let s1 = snd (deleteFile e (storageBucket asset) (storagePath asset) s);
                    s2 = (case (previewBucket asset, previewPath asset) of
                            (Some b, Some p) \<Rightarrow>
                              if b \<noteq> [] \<and> p \<noteq> [] then snd (deleteFile e b p s1) else s1
                          | _ \<Rightarrow> s1);
                    d1 = d\<lparr>assetTags := filter (\<lambda>l. fst l \<noteq> id') (assetTags d)\<rparr>;
                    d2 = d1\<lparr>assets := filter (\<lambda>a. asset_id a \<noteq> id') (assets d1)\<rparr>
                in (Inr (), d2, s2))))"

subsection \<open>Finalize: POST /api/assets/finalize-upload\<close>

text \<open>
  The request body. \<open>durationSeconds\<close> is a JavaScript number that need not be whole; its
  type is left open and the number's \<open>toString\<close> is a parameter of the handlers.
\<close>

record 'n finalize_body =
  fb_assetId :: "string option"
  fb_width :: "int option"
  fb_height :: "int option"
  fb_durationSeconds :: "'n option"
  fb_sha256 :: "string option"
  fb_sizeBytes :: "int option"
  fb_notes :: "string option"

definition finalize_update :: "('n \<Rightarrow> string) \<Rightarrow> timestamp \<Rightarrow> 'n finalize_body \<Rightarrow> asset \<Rightarrow> asset" where
  "finalize_update toString now body a =
     a\<lparr>status := Ready,
       width := num_or_null (fb_width body),
       height := num_or_null (fb_height body),
       durationSeconds := str_or_null (map_option toString (fb_durationSeconds body)),
       sha256 := str_or_null (fb_sha256 body),
       sizeBytes := num_or_null (fb_sizeBytes body),
       asset_notes := str_or_null (fb_notes body),
       updatedAt := now\<rparr>"

text \<open>
  The values of the update fit their columns: \<open>width\<close> and \<open>height\<close> are \<open>integer\<close>,
  \<open>sizeBytes\<close> is \<open>bigint\<close>. Otherwise the database rejects the statement, no row
  changes and the handler's catch answers with status 500.
\<close>

definition finalize_fits :: "'n finalize_body \<Rightarrow> bool" where
  "finalize_fits body =
     (int4_ok (num_or_null (fb_width body)) \<and> int4_ok (num_or_null (fb_height body))
      \<and> int8_ok (num_or_null (fb_sizeBytes body)))"

definition finalize_upload_POST ::
  "('n \<Rightarrow> string) \<Rightarrow> timestamp \<Rightarrow> uuid option \<Rightarrow> 'n finalize_body \<Rightarrow> db \<Rightarrow> (http_error + asset) \<times> db" where
  "finalize_upload_POST toString now user body d =
     (case user of
        None \<Rightarrow> (Inl Unauthorized, d)
      | Some userId \<Rightarrow>
          (case str_or_null (fb_assetId body) of
             None \<Rightarrow> (Inl (BadRequest ''Missing assetId''), d)
           | Some assetId \<Rightarrow>
               if \<not> finalize_fits body then (Inl (ServerError ''Failed to finalize upload''), d)
               else
               (let returning = map (finalize_update toString now body)
                                  (filter (owned_asset assetId userId) (assets d));
                    d1 = d\<lparr>assets := map (\<lambda>a. if owned_asset assetId userId a
                                                then finalize_update toString now body a else a)
                                       (assets d)\<rparr>
                in case returning of
                     [] \<Rightarrow> (Inl (NotFound ''Asset not found''), d1)
                   | updatedAsset # _ \<Rightarrow> (Inr updatedAsset, d1))))"

subsection \<open>Init: POST /api/assets/init-upload\<close>

record init_body =
  ib_filename :: "string option"
  ib_mimeType :: "string option"
  ib_sizeBytes :: "int option"
  ib_sourcePlatform :: "string option"
  ib_captureUrl :: "string option"

text \<open>
  What one init call draws from outside: the row id and creation time the database
  gives the new row, and the clock value and random number of each of the two calls of
  \<open>generateAssetPath\<close>.
\<close>

record init_draw =
  new_id :: uuid
  new_createdAt :: timestamp
  now1 :: timestamp
  rnd1 :: string
  now2 :: timestamp
  rnd2 :: string

record init_response =
  ir_assetId :: uuid
  ir_assetUpload :: "signed_url option"
  ir_previewUpload :: "signed_url option"

text \<open>The row the web route inserts.\<close>

definition web_init_row :: "env \<Rightarrow> init_draw \<Rightarrow> uuid \<Rightarrow> string \<Rightarrow> string \<Rightarrow> init_body \<Rightarrow> asset" where
  "web_init_row e dr userId filename mime body =
     \<lparr>asset_id = new_id dr, ownerId = userId,
      createdAt = new_createdAt dr, updatedAt = new_createdAt dr,
      status = Uploading, captureMethod = WebUpload,
      sourcePlatform =
        (case str_or_null (ib_sourcePlatform body) of
           Some sp \<Rightarrow> sp
         | None \<Rightarrow>
             (case str_or_null (ib_captureUrl body) of
                Some u \<Rightarrow> detectSourceFromUrl e u
              | None \<Rightarrow> ''other'')),
      captureUrl = str_or_null (ib_captureUrl body),
      mediaUrl = None,
      originalFilename = filename, mimeType = mime,
      sizeBytes = num_or_null (ib_sizeBytes body),
      width = None, height = None, durationSeconds = None,
      storageBucket = ASSETS_BUCKET,
      storagePath = generateAssetPath (now1 dr) (rnd1 dr) userId filename None,
      previewBucket = Some PREVIEWS_BUCKET,
      previewPath = Some (generateAssetPath (now2 dr) (rnd2 dr) userId
                            (''preview-'' @ filename) (Some ''previews'')),
      sha256 = None, asset_notes = None\<rparr>"

text \<open>
  The two signed upload URLs, requested together; if either call throws, the handler's
  catch answers with status 500 (the row is already inserted). The insert itself fails,
  with status 500 and no new row, when the row id is taken or \<open>sizeBytes\<close> does not fit
  its \<open>bigint\<close> column.
\<close>

definition sign_uploads :: "env \<Rightarrow> asset \<Rightarrow> (signed_url \<times> signed_url) option" where
  "sign_uploads e row =
     (case createSignedUploadUrl e ASSETS_BUCKET (storagePath row) of
        None \<Rightarrow> None
      | Some assetUpload \<Rightarrow>
          (case previewPath row of
             None \<Rightarrow> None
           | Some pp \<Rightarrow>
               (case createSignedUploadUrl e PREVIEWS_BUCKET pp of
                  None \<Rightarrow> None
                | Some previewUpload \<Rightarrow> Some (assetUpload, previewUpload))))"

definition init_upload_POST :: "env \<Rightarrow> init_draw \<Rightarrow> uuid option \<Rightarrow> init_body \<Rightarrow> db \<Rightarrow> (http_error + init_response) \<times> db" where
  "init_upload_POST e dr user body d =
     (case user of
        None \<Rightarrow> (Inl Unauthorized, d)
      | Some userId \<Rightarrow>
          (case str_or_null (ib_filename body) of
             None \<Rightarrow> (Inl (BadRequest ''Missing required fields: filename, mimeType''), d)
           | Some filename \<Rightarrow>
               (case str_or_null (ib_mimeType body) of
                  None \<Rightarrow> (Inl (BadRequest ''Missing required fields: filename, mimeType''), d)
                | Some mime \<Rightarrow>
                    (let row = web_init_row e dr userId filename mime body
                     in if new_id dr \<in> set (map asset_id (assets d))
                        then (Inl (ServerError ''Failed to initialize upload''), d)
                        else if \<not> int8_ok (sizeBytes row)
                        then (Inl (ServerError ''Failed to initialize upload''), d)
                        else
                          (let d1 = d\<lparr>assets := assets d @ [row]\<rparr>
                           in case sign_uploads e row of
                                None \<Rightarrow> (Inl (ServerError ''Failed to initialize upload''), d1)
                              | Some (assetUpload, previewUpload) \<Rightarrow>
                                  (Inr \<lparr>ir_assetId = asset_id row,
                                        ir_assetUpload = Some assetUpload,
                                        ir_previewUpload = Some previewUpload\<rparr>, d1))))))"

subsection \<open>Tags: GET and POST /api/tags, PATCH and DELETE /api/tags/:id\<close>

text \<open>\<open>orderBy(asc(name))\<close>, with the lexicographic order on strings for the collation.\<close>

definition tags_GET :: "uuid option \<Rightarrow> db \<Rightarrow> http_error + tag list" where
  "tags_GET user d =
     (case user of
        None \<Rightarrow> Inl Unauthorized
      | Some userId \<Rightarrow> Inr (sort_key tag_name (filter (\<lambda>t. tag_ownerId t = userId) (tags d))))"

record tag_body =
  tb_name :: "string option"
  tb_color :: "string option"

text \<open>
  The unique index on (owner, name) and the primary key make the insert throw; the catch
  answers with status 500.
\<close>

definition tags_POST :: "uuid \<Rightarrow> timestamp \<Rightarrow> uuid option \<Rightarrow> tag_body \<Rightarrow> db \<Rightarrow> (http_error + tag) \<times> db" where
  "tags_POST newId now user body d =
     (case user of
        None \<Rightarrow> (Inl Unauthorized, d)
      | Some userId \<Rightarrow>
          (case str_or_null (tb_name body) of
             None \<Rightarrow> (Inl (BadRequest ''Name is required''), d)
           | Some name \<Rightarrow>
               (let newTag = \<lparr>tag_id = newId, tag_ownerId = userId, tag_name = trim name,
                              tag_color = (case str_or_null (tb_color body) of
                                             None \<Rightarrow> ''#6b7280'' | Some c \<Rightarrow> c),
                              tag_createdAt = now\<rparr>
                in if newId \<in> set (map tag_id (tags d))
                      \<or> list_ex (\<lambda>t. tag_ownerId t = userId \<and> tag_name t = trim name) (tags d)
                   then (Inl (ServerError ''Failed to create tag''), d)
                   else (Inr newTag, d\<lparr>tags := tags d @ [newTag]\<rparr>))))"

definition owned_tag :: "uuid \<Rightarrow> uuid \<Rightarrow> tag \<Rightarrow> bool" where
  "owned_tag id' userId t = (tag_id t = id' \<and> tag_ownerId t = userId)"

definition tag_update :: "tag_body \<Rightarrow> tag \<Rightarrow> tag" where
  "tag_update body t =
     t\<lparr>tag_name := (case str_or_null (tb_name body) of None \<Rightarrow> tag_name t | Some n \<Rightarrow> trim n),
       tag_color := (case str_or_null (tb_color body) of None \<Rightarrow> tag_color t | Some c \<Rightarrow> c)\<rparr>"

definition tag_PATCH :: "uuid option \<Rightarrow> uuid \<Rightarrow> tag_body \<Rightarrow> db \<Rightarrow> (http_error + tag) \<times> db" where
  "tag_PATCH user id' body d =
     (case user of
        None \<Rightarrow> (Inl Unauthorized, d)
      | Some userId \<Rightarrow>
          if \<not> truthy_str (tb_name body) \<and> \<not> truthy_str (tb_color body)
          then (Inl (BadRequest ''No fields to update''), d)
          else
            (let hits = filter (owned_tag id' userId) (tags d);
                 clash = (case str_or_null (tb_name body) of
                            None \<Rightarrow> False
                          | Some n \<Rightarrow>
                              hits \<noteq> []
                              \<and> list_ex (\<lambda>t. tag_ownerId t = userId \<and> tag_name t = trim n
                                              \<and> tag_id t \<noteq> id') (tags d))
             in if clash then (Inl (ServerError ''Failed to update tag''), d)
                else
                  (case map (tag_update body) hits of
                     [] \<Rightarrow> (Inl (NotFound ''Tag not found''), d)
                   | updatedTag # _ \<Rightarrow>
                       (Inr updatedTag,
                        d\<lparr>tags := map (\<lambda>t. if owned_tag id' userId t then tag_update body t else t)
                                      (tags d)\<rparr>))))"

definition tag_DELETE :: "uuid option \<Rightarrow> uuid \<Rightarrow> db \<Rightarrow> (http_error + unit) \<times> db" where
  "tag_DELETE user id' d =
     (case user of
        None \<Rightarrow> (Inl Unauthorized, d)
      | Some userId \<Rightarrow>
          (case filter (owned_tag id' userId) (tags d) of
             [] \<Rightarrow> (Inl (NotFound ''Tag not found''), d)
           | tag # _ \<Rightarrow>
               (let d1 = d\<lparr>assetTags := filter (\<lambda>l. snd l \<noteq> id') (assetTags d)\<rparr>;
                    d2 = d1\<lparr>tags := filter (\<lambda>t. tag_id t \<noteq> id') (tags d1)\<rparr>
                in (Inr (), d2))))"

subsection \<open>Personal access tokens: GET and POST /api/tokens, DELETE /api/tokens/:id\<close>

definition PAT_CHARS :: string where
  "PAT_CHARS = ''ABCDEFGHIJKLMNOPQRSTUVWXYZabcdefghijklmnopqrstuvwxyz0123456789''"

text \<open>
  \<open>generatePAT\<close>: \<open>rnd i\<close> is the value of \<open>Math.floor(Math.random() * chars.length)\<close> in
  round \<open>i\<close> of the loop, an index below 62.
\<close>

definition generatePAT :: "(nat \<Rightarrow> nat) \<Rightarrow> string" where
  "generatePAT rnd = ''adstash_'' @ map (\<lambda>i. PAT_CHARS ! (rnd i mod 62)) [0..<40]"

definition getPATPrefix :: "string \<Rightarrow> string" where
  "getPATPrefix token = take 16 token"

record token_info =
  ti_id :: uuid
  ti_name :: string
  ti_tokenPrefix :: string
  ti_createdAt :: timestamp
  ti_lastUsedAt :: "timestamp option"

definition info_of :: "pat \<Rightarrow> token_info" where
  "info_of p = \<lparr>ti_id = pat_id p, ti_name = pat_name p, ti_tokenPrefix = tokenPrefix p,
                 ti_createdAt = pat_createdAt p, ti_lastUsedAt = lastUsedAt p\<rparr>"

definition tokens_GET :: "uuid option \<Rightarrow> db \<Rightarrow> http_error + token_info list" where
  "tokens_GET user d =
     (case user of
        None \<Rightarrow> Inl Unauthorized
      | Some userId \<Rightarrow>
          Inr (filter (\<lambda>_. True)
                 (map info_of (sort_key (\<lambda>p. - int (pat_createdAt p))
                                 (filter (\<lambda>p. pat_ownerId p = userId) (personalAccessTokens d))))))"

definition tokens_POST ::
  "env \<Rightarrow> (nat \<Rightarrow> nat) \<Rightarrow> uuid \<Rightarrow> timestamp \<Rightarrow> uuid option \<Rightarrow> string option \<Rightarrow> db
     \<Rightarrow> (http_error + string \<times> token_info) \<times> db" where
  "tokens_POST e rnd newId now user name d =
     (case user of
        None \<Rightarrow> (Inl Unauthorized, d)
      | Some userId \<Rightarrow>
          (case str_or_null name of
             None \<Rightarrow> (Inl (BadRequest ''Name is required''), d)
           | Some nm \<Rightarrow>
               (let token = generatePAT rnd;
                    newToken = \<lparr>pat_id = newId, pat_ownerId = userId, pat_name = trim nm,
                                tokenHash = hashPAT e token, tokenPrefix = getPATPrefix token,
                                pat_createdAt = now, lastUsedAt = None, revokedAt = None,
                                expiresAt = None\<rparr>
                in if newId \<in> set (map pat_id (personalAccessTokens d))
                   then (Inl (ServerError ''Failed to create token''), d)
                   else (Inr (token, info_of newToken),
                         d\<lparr>personalAccessTokens := personalAccessTokens d @ [newToken]\<rparr>))))"

text \<open>The route deletes the row (a hard delete) and answers success whether a row matched or not.\<close>

definition token_DELETE :: "uuid option \<Rightarrow> uuid \<Rightarrow> db \<Rightarrow> (http_error + unit) \<times> db" where
  "token_DELETE user id' d =
     (case user of
        None \<Rightarrow> (Inl Unauthorized, d)
      | Some userId \<Rightarrow>
          (Inr (),
           d\<lparr>personalAccessTokens :=
                filter (\<lambda>p. \<not> (pat_id p = id' \<and> pat_ownerId p = userId)) (personalAccessTokens d)\<rparr>))"

subsection \<open>Bearer tokens: the three copies of \<open>verifyPAT\<close>\<close>

text \<open>The rows a bearer token selects: equal hash and a null revocation time.\<close>

definition matching_pats :: "env \<Rightarrow> string \<Rightarrow> db \<Rightarrow> pat list" where
  "matching_pats e token d =
     filter (\<lambda>p. tokenHash p = hashPAT e token \<and> revokedAt p = None) (personalAccessTokens d)"

text \<open>The copy in app/api/extension/verify/route.ts.\<close>

definition verifyPAT_verify :: "env \<Rightarrow> string option \<Rightarrow> db \<Rightarrow> uuid option \<times> db" where
  "verifyPAT_verify e authHeader d =
     (case authHeader of
        None \<Rightarrow> (None, d)
      | Some h \<Rightarrow>
          if \<not> startsWith h ''Bearer '' then (None, d)
          else (case matching_pats e (drop 7 h) d of
                  [] \<Rightarrow> (None, d)
                | pat # _ \<Rightarrow> (Some (pat_ownerId pat), d)))"

text \<open>The copy in app/api/extension/assets/init/route.ts, which also writes \<open>lastUsedAt\<close>.\<close>

definition verifyPAT_init :: "env \<Rightarrow> timestamp \<Rightarrow> string option \<Rightarrow> db \<Rightarrow> uuid option \<times> db" where
  "verifyPAT_init e now authHeader d =
     (case authHeader of
        None \<Rightarrow> (None, d)
      | Some h \<Rightarrow>
          if \<not> startsWith h ''Bearer '' then (None, d)
          else (case matching_pats e (drop 7 h) d of
                  [] \<Rightarrow> (None, d)
                | pat # _ \<Rightarrow>
                    (Some (pat_ownerId pat),
                     d\<lparr>personalAccessTokens :=
                          map (\<lambda>p. if pat_id p = pat_id pat then p\<lparr>lastUsedAt := Some now\<rparr> else p)
                            (personalAccessTokens d)\<rparr>)))"

text \<open>The copy in the extension's finalize route.\<close>

definition verifyPAT_finalize :: "env \<Rightarrow> string option \<Rightarrow> db \<Rightarrow> uuid option \<times> db" where
  "verifyPAT_finalize e authHeader d =
     (case authHeader of
        None \<Rightarrow> (None, d)
      | Some h \<Rightarrow>
          if \<not> startsWith h ''Bearer '' then (None, d)
          else (case matching_pats e (drop 7 h) d of
                  [] \<Rightarrow> (None, d)
                | pat # _ \<Rightarrow> (Some (pat_ownerId pat), d)))"

subsection \<open>The extension's routes\<close>

text \<open>GET /api/extension/verify: the owner id of the token, or 401.\<close>

definition extension_verify_GET :: "env \<Rightarrow> string option \<Rightarrow> db \<Rightarrow> (http_error + uuid) \<times> db" where
  "extension_verify_GET e authHeader d =
     (case verifyPAT_verify e authHeader d of
        (ownerId', d1) \<Rightarrow>
          (case str_or_null ownerId' of
             None \<Rightarrow> (Inl Unauthorized, d1)
           | Some owner \<Rightarrow> (Inr owner, d1)))"

record ext_init_body = init_body +
  xi_mediaUrl :: "string option"
  xi_hasBlob :: bool

text \<open>
  POST /api/extension/assets/init. \<open>admin_env\<close> says whether the environment variables
  \<open>getAdminSupabase\<close> needs are set; without them it throws after the row is inserted.
\<close>

definition ext_init_row :: "init_draw \<Rightarrow> uuid \<Rightarrow> string \<Rightarrow> string \<Rightarrow> ext_init_body \<Rightarrow> asset" where
  "ext_init_row dr owner filename mime body =
     \<lparr>asset_id = new_id dr, ownerId = owner,
      createdAt = new_createdAt dr, updatedAt = new_createdAt dr,
      status = (if xi_hasBlob body then Uploading else Ready),
      captureMethod = ExtensionCapture,
      sourcePlatform = (case str_or_null (ib_sourcePlatform body) of Some sp \<Rightarrow> sp | None \<Rightarrow> ''other''),
      captureUrl = str_or_null (ib_captureUrl body),
      mediaUrl = str_or_null (xi_mediaUrl body),
      originalFilename = filename, mimeType = mime,
      sizeBytes = num_or_null (ib_sizeBytes body),
      width = None, height = None, durationSeconds = None,
      storageBucket = ASSETS_BUCKET,
      storagePath = generateAssetPath (now1 dr) (rnd1 dr) owner filename None,
      previewBucket = Some PREVIEWS_BUCKET,
      previewPath = Some (generateAssetPath (now2 dr) (rnd2 dr) owner
                            (''preview-'' @ filename) (Some ''previews'')),
      sha256 = None, asset_notes = None\<rparr>"

definition extension_init_POST ::
  "env \<Rightarrow> bool \<Rightarrow> timestamp \<Rightarrow> init_draw \<Rightarrow> string option \<Rightarrow> ext_init_body \<Rightarrow> db
     \<Rightarrow> (http_error + init_response) \<times> db" where
  "extension_init_POST e admin_env now dr authHeader body d =
     (case verifyPAT_init e now authHeader d of
        (ownerId', d0) \<Rightarrow>
          (case str_or_null ownerId' of
             None \<Rightarrow> (Inl Unauthorized, d0)
           | Some owner \<Rightarrow>
               (case str_or_null (ib_filename body) of
                  None \<Rightarrow> (Inl (BadRequest ''Missing required fields: filename, mimeType''), d0)
                | Some filename \<Rightarrow>
                    (case str_or_null (ib_mimeType body) of
                       None \<Rightarrow> (Inl (BadRequest ''Missing required fields: filename, mimeType''), d0)
                     | Some mime \<Rightarrow>
                         (let row = ext_init_row dr owner filename mime body
                          in if new_id dr \<in> set (map asset_id (assets d0))
                             then (Inl (ServerError ''Failed to initialize upload''), d0)
                             else if \<not> int8_ok (sizeBytes row)
                             then (Inl (ServerError ''Failed to initialize upload''), d0)
                             else
                               (let d1 = d0\<lparr>assets := assets d0 @ [row]\<rparr>
                                in if xi_hasBlob body
                                   then
                                     (if \<not> admin_env
                                      then (Inl (ServerError ''Failed to initialize upload''), d1)
                                      else
                                        (case sign_uploads e row of
                                           None \<Rightarrow> (Inl (ServerError ''Failed to initialize upload''), d1)
                                         | Some (assetUpload, previewUpload) \<Rightarrow>
                                             (Inr \<lparr>ir_assetId = asset_id row,
                                                   ir_assetUpload = Some assetUpload,
                                                   ir_previewUpload = Some previewUpload\<rparr>, d1)))
                                   else (Inr \<lparr>ir_assetId = asset_id row, ir_assetUpload = None,
                                              ir_previewUpload = None\<rparr>, d1)))))))"

record 'n ext_finalize_body =
  xf_assetId :: "string option"
  xf_width :: "int option"
  xf_height :: "int option"
  xf_durationSeconds :: "'n option"
  xf_sha256 :: "string option"
  xf_tagIds :: "uuid list option"

definition ext_finalize_update :: "('n \<Rightarrow> string) \<Rightarrow> timestamp \<Rightarrow> 'n ext_finalize_body \<Rightarrow> asset \<Rightarrow> asset" where
  "ext_finalize_update toString now body a =
     a\<lparr>status := Ready,
       width := num_or_null (xf_width body),
       height := num_or_null (xf_height body),
       durationSeconds := str_or_null (map_option toString (xf_durationSeconds body)),
       sha256 := str_or_null (xf_sha256 body),
       updatedAt := now\<rparr>"

definition ext_finalize_fits :: "'n ext_finalize_body \<Rightarrow> bool" where
  "ext_finalize_fits body =
     (int4_ok (num_or_null (xf_width body)) \<and> int4_ok (num_or_null (xf_height body)))"

text \<open>
  The extension's finalize route. As on the web route, a width or height that does not
  fit its \<open>integer\<close> column makes the update fail: status 500 and no change.
\<close>

definition extension_finalize_POST ::
  "env \<Rightarrow> ('n \<Rightarrow> string) \<Rightarrow> timestamp \<Rightarrow> string option \<Rightarrow> 'n ext_finalize_body \<Rightarrow> db
     \<Rightarrow> (http_error + asset) \<times> db" where
  "extension_finalize_POST e toString now authHeader body d =
     (case verifyPAT_finalize e authHeader d of
        (ownerId', d0) \<Rightarrow>
          (case str_or_null ownerId' of
             None \<Rightarrow> (Inl Unauthorized, d0)
           | Some owner \<Rightarrow>
               (case str_or_null (xf_assetId body) of
                  None \<Rightarrow> (Inl (BadRequest ''Missing assetId''), d0)
                | Some assetId \<Rightarrow>
                    if \<not> ext_finalize_fits body
                    then (Inl (ServerError ''Failed to finalize upload''), d0)
                    else
                    (let returning = map (ext_finalize_update toString now body)
                                       (filter (owned_asset assetId owner) (assets d0));
                         d1 = d0\<lparr>assets := map (\<lambda>a. if owned_asset assetId owner a
                                                      then ext_finalize_update toString now body a
                                                      else a)
                                             (assets d0)\<rparr>
                     in case returning of
                          [] \<Rightarrow> (Inl (NotFound ''Asset not found''), d1)
                        | updatedAsset # _ \<Rightarrow>
                            (Inr updatedAsset,
                             (case xf_tagIds body of
                                None \<Rightarrow> d1
                              | Some tagIds \<Rightarrow>
                                  d1\<lparr>assetTags := assetTags d1
                                                     @ map (\<lambda>tagId. (assetId, tagId)) tagIds\<rparr>))))))"

subsection \<open>The extension's content script\<close>

text \<open>
  The page as the script reads it: the \<open>img\<close> elements, the computed background image of
  every element whose style attribute mentions one, the \<open>video\<close> elements (with the
  \<open>src\<close> of their first \<open>source\<close> child, if any), and the text of the two kinds of
  script elements.
\<close>

record img_el =
  img_currentSrc :: string
  img_src :: string
  naturalWidth :: nat
  naturalHeight :: nat
  img_alt :: string

record video_el =
  video_currentSrc :: string
  video_src :: string
  video_source_src :: "string option"
  video_poster :: string
  videoWidth :: nat
  videoHeight :: nat

record page =
  page_images :: "img_el list"
  page_backgrounds :: "string list"
  page_videos :: "video_el list"
  page_json_scripts :: "string list"
  page_rehydration_scripts :: "string list"
  page_hostname :: string
  page_href :: string
  page_title :: string

text \<open>
  The regular expressions and \<open>JSON.parse\<close> belong to the JavaScript engine:
  \<open>bg_match\<close> is group 1 of the first match of \<open>BG_IMAGE_URL_REGEX\<close>, the three
  \<open>matches\<close> functions list group 1 of every match of the other expressions, and
  \<open>json_unescape m\<close> is \<open>JSON.parse\<close> of \<open>m\<close> between double quotes (\<open>None\<close> when it
  throws). \<open>detect\<close> is the extension's own \<open>detectSourceFromUrl\<close>.
\<close>

record engine =
  bg_match :: "string \<Rightarrow> string option"
  instagram_video_matches :: "string \<Rightarrow> string list"
  instagram_image_matches :: "string \<Rightarrow> string list"
  tiktok_video_matches :: "string \<Rightarrow> string list"
  json_unescape :: "string \<Rightarrow> string option"
  detect :: "string \<Rightarrow> string"

datatype media_type = Image | Video

text \<open>
  The id of a candidate, without its clock and random parts: the kind of the id and the
  index the code prints into it.
\<close>

datatype candidate_id =
  ImgId nat | BgId nat | VideoPosterId nat | VideoId nat | IgVideoId | IgImageId | TtVideoId

record candidate =
  c_id :: candidate_id
  c_type :: media_type
  c_url :: string
  c_width :: "nat option"
  c_height :: "nat option"
  c_alt :: "string option"
  c_poster :: "string option"
  c_thumbnailUrl :: "string option"

text \<open>The two mutable values every pass receives: the candidate array and the set of seen URLs.\<close>

record scan =
  candidates :: "candidate list"
  seenUrls :: "string set"

definition push :: "candidate \<Rightarrow> scan \<Rightarrow> scan" where
  "push c sc = sc\<lparr>seenUrls := insert (c_url c) (seenUrls sc), candidates := candidates sc @ [c]\<rparr>"

definition or_str :: "string \<Rightarrow> string \<Rightarrow> string" where
  "or_str a b = (if a \<noteq> [] then a else b)"

definition nonempty :: "string \<Rightarrow> string option" where
  "nonempty s = (if s = [] then None else Some s)"

definition nonzero :: "nat \<Rightarrow> nat option" where
  "nonzero n = (if n = 0 then None else Some n)"

definition scanImages_step :: "scan \<times> nat \<Rightarrow> img_el \<Rightarrow> scan \<times> nat" where
  "scanImages_step st img =
     (let sc = fst st; imageIndex = snd st; url = or_str (img_currentSrc img) (img_src img)
      in if url = [] \<or> startsWith url ''data:'' \<or> url \<in> seenUrls sc then st
         else if naturalWidth img < 100 \<or> naturalHeight img < 100 then st
         else (push \<lparr>c_id = ImgId imageIndex, c_type = Image, c_url = url,
                      c_width = Some (naturalWidth img), c_height = Some (naturalHeight img),
                      c_alt = nonempty (img_alt img), c_poster = None, c_thumbnailUrl = None\<rparr> sc,
               imageIndex + 1))"

definition scanImages :: "page \<Rightarrow> scan \<Rightarrow> scan" where
  "scanImages pg sc = fst (foldl scanImages_step (sc, 0) (page_images pg))"

definition scanBackgroundImages_step :: "engine \<Rightarrow> scan \<times> nat \<Rightarrow> string \<Rightarrow> scan \<times> nat" where
  "scanBackgroundImages_step en st bgImage =
     (let sc = fst st; bgIndex = snd st
      in case bg_match en bgImage of
           None \<Rightarrow> st
         | Some url \<Rightarrow>
             if startsWith url ''data:'' \<or> url \<in> seenUrls sc then st
             else (push \<lparr>c_id = BgId bgIndex, c_type = Image, c_url = url,
                          c_width = None, c_height = None, c_alt = None, c_poster = None,
                          c_thumbnailUrl = None\<rparr> sc,
                   bgIndex + 1))"

definition scanBackgroundImages :: "engine \<Rightarrow> page \<Rightarrow> scan \<Rightarrow> scan" where
  "scanBackgroundImages en pg sc =
     fst (foldl (scanBackgroundImages_step en) (sc, 0) (page_backgrounds pg))"

definition getVideoUrl :: "video_el \<Rightarrow> string" where
  "getVideoUrl video =
     (let url = or_str (video_currentSrc video) (video_src video)
      in if url = []
         then (case video_source_src video of None \<Rightarrow> [] | Some s \<Rightarrow> or_str s [])
         else url)"

definition handleBlobVideo :: "video_el \<Rightarrow> nat \<Rightarrow> scan \<Rightarrow> scan" where
  "handleBlobVideo video videoIndex sc =
     (let poster = video_poster video
      in if poster \<noteq> [] \<and> poster \<notin> seenUrls sc
         then push \<lparr>c_id = VideoPosterId videoIndex, c_type = Image, c_url = poster,
                     c_width = nonzero (videoWidth video), c_height = nonzero (videoHeight video),
                     c_alt = None, c_poster = None, c_thumbnailUrl = None\<rparr> sc
         else sc)"

definition scanVideos_step :: "scan \<times> nat \<Rightarrow> video_el \<Rightarrow> scan \<times> nat" where
  "scanVideos_step st video =
     (let sc = fst st; videoIndex = snd st; url = getVideoUrl video
      in if url = [] \<or> startsWith url ''blob:'' \<or> startsWith url ''data:''
         then ((if startsWith (video_currentSrc video) ''blob:''
                   \<or> startsWith (video_src video) ''blob:''
                then handleBlobVideo video videoIndex sc else sc),
               videoIndex + 1)
         else if url \<in> seenUrls sc then (sc, videoIndex + 1)
         else (push \<lparr>c_id = VideoId videoIndex, c_type = Video, c_url = url,
                      c_width = nonzero (videoWidth video), c_height = nonzero (videoHeight video),
                      c_alt = None, c_poster = nonempty (video_poster video),
                      c_thumbnailUrl = nonempty (video_poster video)\<rparr> sc,
               videoIndex + 1))"

definition scanVideos :: "page \<Rightarrow> scan \<Rightarrow> scan" where
  "scanVideos pg sc = fst (foldl scanVideos_step (sc, 0) (page_videos pg))"

definition bare :: "candidate_id \<Rightarrow> media_type \<Rightarrow> string \<Rightarrow> candidate" where
  "bare i ty url = \<lparr>c_id = i, c_type = ty, c_url = url, c_width = None, c_height = None,
                     c_alt = None, c_poster = None, c_thumbnailUrl = None\<rparr>"

text \<open>
  One \<open>for\<close> loop over the matches of an Instagram expression. A \<open>JSON.parse\<close> that
  throws leaves the loop and the whole pass (the boolean is then \<open>False\<close>); what was pushed
  before stays.
\<close>

fun instagram_loop :: "engine \<Rightarrow> candidate_id \<Rightarrow> media_type \<Rightarrow> string list \<Rightarrow> scan \<Rightarrow> scan \<times> bool" where
  "instagram_loop en i ty [] sc = (sc, True)"
| "instagram_loop en i ty (m # ms) sc =
     (case json_unescape en m of
        None \<Rightarrow> (sc, False)
      | Some url \<Rightarrow>
          instagram_loop en i ty ms (if url \<notin> seenUrls sc then push (bare i ty url) sc else sc))"

fun scanInstagramMedia :: "engine \<Rightarrow> string list \<Rightarrow> scan \<Rightarrow> scan" where
  "scanInstagramMedia en [] sc = sc"
| "scanInstagramMedia en (text # scripts) sc =
     (case instagram_loop en IgVideoId Video (instagram_video_matches en text) sc of
        (sc1, ok1) \<Rightarrow>
          if \<not> ok1 then sc1
          else (case instagram_loop en IgImageId Image (instagram_image_matches en text) sc1 of
                  (sc2, ok2) \<Rightarrow> if \<not> ok2 then sc2 else scanInstagramMedia en scripts sc2))"

text \<open>The TikTok pass skips a match whose \<open>JSON.parse\<close> throws and goes on.\<close>

definition tiktok_step :: "engine \<Rightarrow> scan \<Rightarrow> string \<Rightarrow> scan" where
  "tiktok_step en sc m =
     (case json_unescape en m of
        None \<Rightarrow> sc
      | Some url \<Rightarrow>
          if \<not> (url \<in> seenUrls sc \<or> startsWith url ''blob:'')
          then push (bare TtVideoId Video url) sc else sc)"

definition scanTikTokMedia :: "engine \<Rightarrow> string list \<Rightarrow> scan \<Rightarrow> scan" where
  "scanTikTokMedia en scripts sc =
     foldl (\<lambda>sc' text. foldl (tiktok_step en) sc' (tiktok_video_matches en text)) sc scripts"

definition scanPlatformSpecificMedia :: "engine \<Rightarrow> page \<Rightarrow> scan \<Rightarrow> scan" where
  "scanPlatformSpecificMedia en pg sc =
     (let sc1 = (if includes_str (page_hostname pg) ''instagram.com''
                 then scanInstagramMedia en (page_json_scripts pg) sc else sc)
      in if includes_str (page_hostname pg) ''tiktok.com''
         then scanTikTokMedia en (page_rehydration_scripts pg) sc1 else sc1)"

record page_context =
  pc_url :: string
  pc_title :: string
  pc_sourcePlatform :: string

record candidates_response =
  cr_candidates :: "candidate list"
  cr_pageContext :: page_context

definition getCandidates :: "engine \<Rightarrow> page \<Rightarrow> candidates_response" where
  "getCandidates en pg =
     (let sc0 = \<lparr>candidates = [], seenUrls = {}\<rparr>;
          sc1 = scanImages pg sc0;
          sc2 = scanBackgroundImages en pg sc1;
          sc3 = scanVideos pg sc2;
          sc4 = scanPlatformSpecificMedia en pg sc3
      in \<lparr>cr_candidates = candidates sc4,
          cr_pageContext = \<lparr>pc_url = page_href pg, pc_title = page_title pg,
                             pc_sourcePlatform = detect en (page_href pg)\<rparr>\<rparr>)"

section \<open>Predicates of the properties and concrete inputs\<close>

text \<open>
  The form of the two storage paths of a row that an init route inserts for \<open>owner\<close> and
  \<open>filename\<close> with the draw \<open>dr\<close>: the primary path is owner/timestamp-random-sanitized
  name; the preview path has the directory \<open>previews\<close> in front and the name
  \<open>preview-\<close>filename; the random part has at most 6 characters; sanitizing keeps the length
  and replaces exactly the characters that are not safe by an underscore.
\<close>

definition upload_paths :: "uuid \<Rightarrow> init_draw \<Rightarrow> string \<Rightarrow> asset \<Rightarrow> bool" where
  "upload_paths owner dr filename row =
     (storageBucket row = ''assets''
      \<and> storagePath row = owner @ ''/'' @ show_nat (now1 dr) @ ''-'' @ randomSuffix (rnd1 dr) @ ''-''
                             @ sanitize filename
      \<and> previewBucket row = Some ''previews''
      \<and> previewPath row = Some (''previews/'' @ owner @ ''/'' @ show_nat (now2 dr) @ ''-''
                                   @ randomSuffix (rnd2 dr) @ ''-'' @ sanitize (''preview-'' @ filename))
      \<and> length (randomSuffix (rnd1 dr)) \<le> 6 \<and> length (randomSuffix (rnd2 dr)) \<le> 6
      \<and> length (sanitize filename) = length filename
      \<and> list_all (\<lambda>p. snd p = (if safe_char (fst p) then fst p else CHR ''_''))
            (zip filename (sanitize filename)))"

text \<open>
  An environment for the concrete runs: a stand-in digest, a storage provider that signs
  every URL and whose \<open>remove\<close> always reports an error.
\<close>

definition demo_env :: env where
  "demo_env =
     \<lparr>hashPAT = (\<lambda>t. ''sha256:'' @ t),
      hostname_of = (\<lambda>u. None),
      ilike = (\<lambda>t p. True),
      parseDate = (\<lambda>s. None),
      createSignedUploadUrl = (\<lambda>b p. Some \<lparr>signedUrl = ''https://storage/'' @ b @ ''/'' @ p,
                                            su_token = ''t'', su_path = p\<rparr>),
      createSignedDownloadUrl = (\<lambda>b p. Some (''https://storage/'' @ b @ ''/'' @ p)),
      remove_fails = (\<lambda>b p. True)\<rparr>"

definition demo_init_body :: init_body where
  "demo_init_body = \<lparr>ib_filename = Some ''my ad.png'', ib_mimeType = Some ''image/png'',
                      ib_sizeBytes = None, ib_sourcePlatform = None, ib_captureUrl = None\<rparr>"

text \<open>A draw whose first random number prints as \<open>0.i\<close> in base 36 (the number 0.5).\<close>

definition demo_draw :: init_draw where
  "demo_draw = \<lparr>new_id = ''a1'', new_createdAt = 1700, now1 = 1700, rnd1 = ''0.i'',
                 now2 = 1701, rnd2 = ''0.4fzyo82mvyr''\<rparr>"

definition empty_db :: db where
  "empty_db = \<lparr>assets = [], assetTags = [], tags = [], personalAccessTokens = []\<rparr>"

definition demo_tag :: tag where
  "demo_tag = \<lparr>tag_id = ''t1'', tag_ownerId = ''u1'', tag_name = ''summer'', tag_color = ''#6b7280'',
                 tag_createdAt = 1600\<rparr>"

definition demo_asset :: asset where
  "demo_asset = web_init_row demo_env demo_draw ''u1'' ''my ad.png'' ''image/png'' demo_init_body"

definition demo_db :: db where
  "demo_db = \<lparr>assets = [demo_asset], assetTags = [(''a1'', ''t1'')], tags = [demo_tag],
               personalAccessTokens = []\<rparr>"

definition demo_storage :: storage where
  "demo_storage = \<lparr>objects = [(''assets'', ''u1/1700-i-my_ad.png'')], remove_log = []\<rparr>"

text \<open>The removals an asset's deletion asks for.\<close>

definition removals_of :: "asset \<Rightarrow> (string \<times> string) list" where
  "removals_of a =
     (storageBucket a, storagePath a)
     # (case previewBucket a of
          None \<Rightarrow> []
        | Some b \<Rightarrow> (case previewPath a of None \<Rightarrow> [] | Some p \<Rightarrow> if b \<noteq> [] \<and> p \<noteq> [] then [(b, p)] else []))"

definition demo_pat :: pat where
  "demo_pat = \<lparr>pat_id = ''p1'', pat_ownerId = ''u1'', pat_name = ''Chrome Extension'',
                tokenHash = ''sha256:adstash_demo'', tokenPrefix = ''adstash_demo'',
                pat_createdAt = 1500, lastUsedAt = None, revokedAt = None, expiresAt = None\<rparr>"

text \<open>A database with one asset of known size, one tag, their link and one token.\<close>

definition demo_db2 :: db where
  "demo_db2 = \<lparr>assets = [demo_asset\<lparr>sizeBytes := Some 2048\<rparr>], assetTags = [(''a1'', ''t1'')],
                tags = [demo_tag], personalAccessTokens = [demo_pat]\<rparr>"

definition demo_finalize_body :: "int finalize_body" where
  "demo_finalize_body = \<lparr>fb_assetId = Some ''a1'', fb_width = Some 800, fb_height = Some 600,
                          fb_durationSeconds = Some 0, fb_sha256 = None, fb_sizeBytes = None,
                          fb_notes = None\<rparr>"

definition demo_ext_finalize_body :: "int ext_finalize_body" where
  "demo_ext_finalize_body = \<lparr>xf_assetId = Some ''a1'', xf_width = Some 800, xf_height = Some 600,
                              xf_durationSeconds = None, xf_sha256 = None, xf_tagIds = None\<rparr>"

text \<open>
  What the three copies of \<open>verifyPAT\<close> test: the header is \<open>Bearer\<close>, a space and a token
  whose digest is the stored hash of a row with a null revocation time.
\<close>

definition bearer_matches :: "env \<Rightarrow> string option \<Rightarrow> db \<Rightarrow> bool" where
  "bearer_matches e authHeader d =
     (case authHeader of
        None \<Rightarrow> False
      | Some h \<Rightarrow>
          startsWith h ''Bearer ''
          \<and> list_ex (\<lambda>p. tokenHash p = hashPAT e (drop 7 h) \<and> revokedAt p = None)
               (personalAccessTokens d))"

definition demo_ext_init_body :: ext_init_body where
  "demo_ext_init_body = \<lparr>ib_filename = Some ''clip.mp4'', ib_mimeType = Some ''video/mp4'',
                          ib_sizeBytes = None, ib_sourcePlatform = None, ib_captureUrl = None,
                          xi_mediaUrl = None, xi_hasBlob = True\<rparr>"

text \<open>
  Two ready assets of one owner: the first holds the tags t1 and t2, the second only t1;
  the tag t2 belongs to another owner.
\<close>

definition demo_db3 :: db where
  "demo_db3 =
     \<lparr>assets = [demo_asset\<lparr>status := Ready\<rparr>,
                demo_asset\<lparr>asset_id := ''a2'', status := Ready, createdAt := 1800\<rparr>],
      assetTags = [(''a1'', ''t1''), (''a1'', ''t2''), (''a2'', ''t1'')],
      tags = [demo_tag, demo_tag\<lparr>tag_id := ''t2'', tag_ownerId := ''u2'', tag_name := ''secret''\<rparr>],
      personalAccessTokens = [demo_pat]\<rparr>"

definition demo_params :: query_params where
  "demo_params = \<lparr>qp_page = 1, qp_limit = 24, qp_search = [], qp_sourcePlatform = [],
                   qp_mimeTypeFilter = [], qp_tagIds = [''t1'', ''t2''], qp_fromDate = [],
                   qp_toDate = []\<rparr>"

text \<open>
  The invariant of the passes: the URLs of the candidates are pairwise distinct and all
  of them are in the set of seen URLs.
\<close>

definition seen_inv :: "scan \<Rightarrow> bool" where
  "seen_inv sc = (distinct (map c_url (candidates sc)) \<and> set (map c_url (candidates sc)) \<subseteq> seenUrls sc)"

definition demo_engine :: engine where
  "demo_engine =
     \<lparr>bg_match = (\<lambda>s. if s = ''none'' then None else Some s),
      instagram_video_matches = (\<lambda>t. []),
      instagram_image_matches = (\<lambda>t. [t]),
      tiktok_video_matches = (\<lambda>t. []),
      json_unescape = (\<lambda>m. Some m),
      detect = (\<lambda>u. ''instagram'')\<rparr>"

text \<open>A page on which one URL is an image, a background, a video poster and an embedded image.\<close>

definition demo_page :: page where
  "demo_page =
     \<lparr>page_images = [\<lparr>img_currentSrc = ''https://cdn/x.jpg'', img_src = [], naturalWidth = 640,
                       naturalHeight = 480, img_alt = []\<rparr>,
                      \<lparr>img_currentSrc = [], img_src = ''https://cdn/x.jpg'', naturalWidth = 640,
                       naturalHeight = 480, img_alt = ''again''\<rparr>],
      page_backgrounds = [''https://cdn/x.jpg'', ''https://cdn/bg.png''],
      page_videos = [\<lparr>video_currentSrc = ''blob:1'', video_src = [], video_source_src = None,
                       video_poster = ''https://cdn/x.jpg'', videoWidth = 0, videoHeight = 0\<rparr>],
      page_json_scripts = [''https://cdn/x.jpg'', ''https://cdn/y.jpg''],
      page_rehydration_scripts = [],
      page_hostname = ''www.instagram.com'',
      page_href = ''https://www.instagram.com/p/1'',
      page_title = ''post''\<rparr>"

text \<open>A PATCH body that sets the tags of an asset to the one tag t2.\<close>

definition demo_patch :: patch_body where
  "demo_patch = \<lparr>pb_notes = None, pb_sourcePlatform = None, pb_tagIds = Some [''t2'']\<rparr>"

section \<open>Properties\<close>

subsection \<open>Evaluation and helper lemmas\<close>

lemma show_nat_1700: "show_nat 1700 = ''1700''"
  by (simp add: show_nat.simps digit_char_def)

lemma show_nat_1701: "show_nat 1701 = ''1701''"
  by (simp add: show_nat.simps digit_char_def)

lemma null_fits [simp]:
  "num_or_null None = None" "int4_ok None" "int8_ok None"
  by (simp_all add: num_or_null_def truthy_num_def int4_ok_def int8_ok_def)

lemma length_randomSuffix: "length (randomSuffix r) \<le> 6"
  by (simp add: randomSuffix_def)

lemma sanitize_chars:
  "length (sanitize f) = length f"
  "list_all (\<lambda>c. safe_char c \<or> c = CHR ''_'') (sanitize f)"
  "list_all (\<lambda>p. snd p = (if safe_char (fst p) then fst p else CHR ''_'')) (zip f (sanitize f))"
  by (induction f) (simp_all add: sanitize_def)

lemma init_upload_POST_Inr:
  assumes "init_upload_POST e dr (Some userId) body d = (Inr resp, d')"
  obtains filename mime au pu where
    "str_or_null (ib_filename body) = Some filename"
    "str_or_null (ib_mimeType body) = Some mime"
    "new_id dr \<notin> set (map asset_id (assets d))"
    "sign_uploads e (web_init_row e dr userId filename mime body) = Some (au, pu)"
    "d' = d\<lparr>assets := assets d @ [web_init_row e dr userId filename mime body]\<rparr>"
    "resp = \<lparr>ir_assetId = new_id dr, ir_assetUpload = Some au, ir_previewUpload = Some pu\<rparr>"
proof (cases "str_or_null (ib_filename body)")
  case None
  with assms show ?thesis by (simp add: init_upload_POST_def)
next
  case (Some filename)
  note fn = this
  show ?thesis
  proof (cases "str_or_null (ib_mimeType body)")
    case None
    with assms fn show ?thesis by (simp add: init_upload_POST_def)
  next
    case (Some mime)
    note mt = this
    show ?thesis
    proof (cases "new_id dr \<in> set (map asset_id (assets d))")
      case True
      with assms fn mt show ?thesis by (simp add: init_upload_POST_def Let_def)
    next
      case False
      note fresh = this
      show ?thesis
      proof (cases "int8_ok (sizeBytes (web_init_row e dr userId filename mime body))")
        case False
        with assms fn mt fresh show ?thesis by (simp add: init_upload_POST_def Let_def)
      next
        case True
        note fits = this
        show ?thesis
        proof (cases "sign_uploads e (web_init_row e dr userId filename mime body)")
          case None
          with assms fn mt fresh fits show ?thesis by (simp add: init_upload_POST_def Let_def)
        next
          case (Some pr)
          obtain au pu where pr: "pr = (au, pu)" by (cases pr)
          have idr: "asset_id (web_init_row e dr userId filename mime body) = new_id dr"
            by (simp add: web_init_row_def)
          from assms fn mt fresh fits Some pr idr
          have "d' = d\<lparr>assets := assets d @ [web_init_row e dr userId filename mime body]\<rparr>"
            and "resp = \<lparr>ir_assetId = new_id dr, ir_assetUpload = Some au, ir_previewUpload = Some pu\<rparr>"
            by (auto simp add: init_upload_POST_def Let_def)
          with fn mt fresh Some pr that show ?thesis by blast
        qed
      qed
    qed
  qed
qed


lemma extension_init_POST_Inr:
  assumes "extension_init_POST e admin_env now dr authHeader body d = (Inr resp, d')"
  obtains owner d0 filename mime where
    "verifyPAT_init e now authHeader d = (Some owner, d0)"
    "str_or_null (ib_filename body) = Some filename"
    "str_or_null (ib_mimeType body) = Some mime"
    "new_id dr \<notin> set (map asset_id (assets d0))"
    "d' = d0\<lparr>assets := assets d0 @ [ext_init_row dr owner filename mime body]\<rparr>"
    "ir_assetId resp = new_id dr"
    "xi_hasBlob body \<Longrightarrow>
       sign_uploads e (ext_init_row dr owner filename mime body)
         = Some (the (ir_assetUpload resp), the (ir_previewUpload resp))"
proof -
  obtain o' d0 where v: "verifyPAT_init e now authHeader d = (o', d0)"
    by (cases "verifyPAT_init e now authHeader d")
  show ?thesis
  proof (cases "str_or_null o'")
    case None
    with assms v show ?thesis by (simp add: extension_init_POST_def)
  next
    case (Some owner)
    then have o': "o' = Some owner"
      by (simp add: str_or_null_def split: if_splits)
    note ow = Some
    show ?thesis
    proof (cases "str_or_null (ib_filename body)")
      case None
      with assms v ow show ?thesis by (simp add: extension_init_POST_def)
    next
      case (Some filename)
      note fn = this
      show ?thesis
      proof (cases "str_or_null (ib_mimeType body)")
        case None
        with assms v ow fn show ?thesis by (simp add: extension_init_POST_def)
      next
        case (Some mime)
        note mt = this
        have idr: "asset_id (ext_init_row dr owner filename mime body) = new_id dr"
          by (simp add: ext_init_row_def)
        show ?thesis
        proof (cases "new_id dr \<in> set (map asset_id (assets d0))")
          case True
          with assms v ow fn mt show ?thesis by (simp add: extension_init_POST_def Let_def)
        next
          case False
          note fresh = this
          from assms v ow fn mt fresh idr
          have d': "d' = d0\<lparr>assets := assets d0 @ [ext_init_row dr owner filename mime body]\<rparr>"
            and rid: "ir_assetId resp = new_id dr"
            by (auto simp add: extension_init_POST_def Let_def split: if_splits option.splits)
          have sg: "sign_uploads e (ext_init_row dr owner filename mime body)
                      = Some (the (ir_assetUpload resp), the (ir_previewUpload resp))"
            if "xi_hasBlob body"
            using assms v ow fn mt fresh that
            by (auto simp add: extension_init_POST_def Let_def split: if_splits option.splits)
          from v o' fn mt fresh d' rid sg that show ?thesis by blast
        qed
      qed
    qed
  qed
qed

lemma web_init_row_paths:
  "storageBucket (web_init_row e dr u f m body) = ''assets''"
  "storagePath (web_init_row e dr u f m body)
     = u @ ''/'' @ show_nat (now1 dr) @ ''-'' @ randomSuffix (rnd1 dr) @ ''-'' @ sanitize f"
  "previewBucket (web_init_row e dr u f m body) = Some ''previews''"
  "previewPath (web_init_row e dr u f m body)
     = Some (''previews/'' @ u @ ''/'' @ show_nat (now2 dr) @ ''-'' @ randomSuffix (rnd2 dr) @ ''-''
             @ sanitize (''preview-'' @ f))"
  by (simp_all add: web_init_row_def generateAssetPath_def ASSETS_BUCKET_def PREVIEWS_BUCKET_def)

lemma ext_init_row_paths:
  "storageBucket (ext_init_row dr u f m body) = ''assets''"
  "storagePath (ext_init_row dr u f m body)
     = u @ ''/'' @ show_nat (now1 dr) @ ''-'' @ randomSuffix (rnd1 dr) @ ''-'' @ sanitize f"
  "previewBucket (ext_init_row dr u f m body) = Some ''previews''"
  "previewPath (ext_init_row dr u f m body)
     = Some (''previews/'' @ u @ ''/'' @ show_nat (now2 dr) @ ''-'' @ randomSuffix (rnd2 dr) @ ''-''
             @ sanitize (''preview-'' @ f))"
  by (simp_all add: ext_init_row_def generateAssetPath_def ASSETS_BUCKET_def PREVIEWS_BUCKET_def)

subsection \<open>C8: the storage paths of an initialized upload\<close>

text \<open>
  C8 (as amended). Whenever the web init route or the extension's init route succeeds, it
  has appended one row whose id is the returned asset id, whose primary object lies in
  bucket \<open>assets\<close> at owner/timestamp-random-sanitized(filename), and whose preview lies in
  bucket \<open>previews\<close> at previews/owner/timestamp-random-sanitized(preview-filename), each
  path with the clock value and the random number of its own call; the random part has
  at most six characters, and sanitizing replaces every character outside
  \<open>[a-zA-Z0-9.-]\<close> by an underscore and nothing else.
\<close>

theorem init_upload_paths:
  "(init_upload_POST e dr (Some userId) body d = (Inr resp, d') \<longrightarrow>
      (\<exists>filename row. str_or_null (ib_filename body) = Some filename
          \<and> assets d' = assets d @ [row] \<and> asset_id row = ir_assetId resp
          \<and> ownerId row = userId \<and> upload_paths userId dr filename row))
   \<and> (extension_init_POST e admin_env now dr authHeader xbody d = (Inr resp, d') \<longrightarrow>
      (\<exists>filename row. str_or_null (ib_filename xbody) = Some filename
          \<and> assets d' = assets d @ [row] \<and> asset_id row = ir_assetId resp
          \<and> Some (ownerId row) = fst (verifyPAT_init e now authHeader d)
          \<and> upload_paths (ownerId row) dr filename row))"
proof (intro conjI impI)
  assume a: "init_upload_POST e dr (Some userId) body d = (Inr resp, d')"
  then obtain filename mime au pu where
    fn: "str_or_null (ib_filename body) = Some filename"
    and d': "d' = d\<lparr>assets := assets d @ [web_init_row e dr userId filename mime body]\<rparr>"
    and r: "resp = \<lparr>ir_assetId = new_id dr, ir_assetUpload = Some au, ir_previewUpload = Some pu\<rparr>"
    by (rule init_upload_POST_Inr)
  let ?row = "web_init_row e dr userId filename mime body"
  have "upload_paths userId dr filename ?row"
    unfolding upload_paths_def
    by (simp add: web_init_row_paths length_randomSuffix sanitize_chars)
  moreover have "asset_id ?row = ir_assetId resp" "ownerId ?row = userId"
    using r by (simp_all add: web_init_row_def)
  moreover have "assets d' = assets d @ [?row]"
    using d' by simp
  ultimately show "\<exists>filename row. str_or_null (ib_filename body) = Some filename
          \<and> assets d' = assets d @ [row] \<and> asset_id row = ir_assetId resp
          \<and> ownerId row = userId \<and> upload_paths userId dr filename row"
    using fn by blast
next
  assume a: "extension_init_POST e admin_env now dr authHeader xbody d = (Inr resp, d')"
  then obtain owner d0 filename mime where
    v: "verifyPAT_init e now authHeader d = (Some owner, d0)"
    and fn: "str_or_null (ib_filename xbody) = Some filename"
    and d': "d' = d0\<lparr>assets := assets d0 @ [ext_init_row dr owner filename mime xbody]\<rparr>"
    and r: "ir_assetId resp = new_id dr"
    by (rule extension_init_POST_Inr)
  let ?row = "ext_init_row dr owner filename mime xbody"
  have same: "assets d0 = assets d"
    using v by (auto simp add: verifyPAT_init_def split: option.splits if_splits list.splits)
  have "upload_paths (ownerId ?row) dr filename ?row"
    unfolding upload_paths_def
    by (simp add: ext_init_row_paths length_randomSuffix sanitize_chars) (simp add: ext_init_row_def)
  moreover have "asset_id ?row = ir_assetId resp" "Some (ownerId ?row) = fst (verifyPAT_init e now authHeader d)"
    using r v by (simp_all add: ext_init_row_def)
  moreover have "assets d' = assets d @ [?row]"
    using d' same by simp
  ultimately show "\<exists>filename row. str_or_null (ib_filename xbody) = Some filename
          \<and> assets d' = assets d @ [row] \<and> asset_id row = ir_assetId resp
          \<and> Some (ownerId row) = fst (verifyPAT_init e now authHeader d)
          \<and> upload_paths (ownerId row) dr filename row"
    using fn by blast
qed

theorem init_upload_paths_witness:
  "snd (init_upload_POST demo_env demo_draw (Some ''u1'') demo_init_body empty_db)
     = \<lparr>assets = [web_init_row demo_env demo_draw ''u1'' ''my ad.png'' ''image/png'' demo_init_body],
         assetTags = [], tags = [], personalAccessTokens = []\<rparr>
   \<and> upload_paths ''u1'' demo_draw ''my ad.png''
         (web_init_row demo_env demo_draw ''u1'' ''my ad.png'' ''image/png'' demo_init_body)"
proof -
  let ?resp = "\<lparr>ir_assetId = ''a1'',
      ir_assetUpload = Some \<lparr>signedUrl = ''https://storage/assets/u1/1700-i-my_ad.png'',
                               su_token = ''t'', su_path = ''u1/1700-i-my_ad.png''\<rparr>,
      ir_previewUpload = Some \<lparr>signedUrl = ''https://storage/previews/previews/u1/1701-4fzyo8-preview-my_ad.png'',
                               su_token = ''t'', su_path = ''previews/u1/1701-4fzyo8-preview-my_ad.png''\<rparr>\<rparr>"
  let ?d = "\<lparr>assets = [web_init_row demo_env demo_draw ''u1'' ''my ad.png'' ''image/png'' demo_init_body],
         assetTags = [], tags = [], personalAccessTokens = []\<rparr>"
  have run: "init_upload_POST demo_env demo_draw (Some ''u1'') demo_init_body empty_db = (Inr ?resp, ?d)"
    by (simp add: init_upload_POST_def demo_env_def demo_draw_def demo_init_body_def empty_db_def
        str_or_null_def truthy_str_def sign_uploads_def web_init_row_def generateAssetPath_def
        ASSETS_BUCKET_def PREVIEWS_BUCKET_def show_nat_1700 show_nat_1701 randomSuffix_def sanitize_def
        safe_char_def Let_def)
  from init_upload_paths [of demo_env demo_draw "''u1''" demo_init_body empty_db ?resp ?d] run
  have "\<exists>filename row. str_or_null (ib_filename demo_init_body) = Some filename
          \<and> assets ?d = assets empty_db @ [row] \<and> asset_id row = ir_assetId ?resp
          \<and> ownerId row = ''u1'' \<and> upload_paths ''u1'' demo_draw filename row"
    by blast
  then have "upload_paths ''u1'' demo_draw ''my ad.png''
         (web_init_row demo_env demo_draw ''u1'' ''my ad.png'' ''image/png'' demo_init_body)"
    by (auto simp add: demo_init_body_def str_or_null_def truthy_str_def empty_db_def)
  with run show ?thesis by simp
qed


text \<open>
  C8 as stated fails: with the random number 0.5 (\<open>0.i\<close> in base 36) the random part of
  the primary path is the single character \<open>i\<close>, and the preview path starts with the
  directory \<open>previews\<close>, not with the owner.
\<close>

theorem init_upload_paths_counterexample:
  "map storagePath (assets (snd (init_upload_POST demo_env demo_draw (Some ''u1'') demo_init_body empty_db)))
     = [''u1/1700-i-my_ad.png'']
   \<and> map previewPath (assets (snd (init_upload_POST demo_env demo_draw (Some ''u1'') demo_init_body empty_db)))
     = [Some ''previews/u1/1701-4fzyo8-preview-my_ad.png'']
   \<and> length (randomSuffix (rnd1 demo_draw)) = 1
   \<and> \<not> startsWith ''previews/u1/1701-4fzyo8-preview-my_ad.png'' ''u1/''"
  by (simp add: init_upload_POST_def demo_env_def demo_draw_def demo_init_body_def empty_db_def
        str_or_null_def truthy_str_def sign_uploads_def web_init_row_def generateAssetPath_def
        ASSETS_BUCKET_def PREVIEWS_BUCKET_def show_nat_1700 show_nat_1701 randomSuffix_def sanitize_def
        safe_char_def Let_def startsWith_def)

subsection \<open>C7: deleting a tag\<close>

text \<open>
  C7. Deleting a tag its owner holds succeeds, removes every asset-tag row that names the
  tag and the tag row itself (no asset-tag row and no tag row with that id is left), and
  leaves the \<open>assets\<close> table as it was.
\<close>

theorem tag_DELETE_frame:
  assumes "list_ex (owned_tag id' userId) (tags d)"
  shows "tag_DELETE (Some userId) id' d
           = (Inr (), d\<lparr>assetTags := filter (\<lambda>l. snd l \<noteq> id') (assetTags d),
                        tags := filter (\<lambda>t. tag_id t \<noteq> id') (tags d)\<rparr>)
         \<and> assets (snd (tag_DELETE (Some userId) id' d)) = assets d
         \<and> id' \<notin> snd ` set (assetTags (snd (tag_DELETE (Some userId) id' d)))
         \<and> id' \<notin> tag_id ` set (tags (snd (tag_DELETE (Some userId) id' d)))"
proof -
  from assms obtain t ts where hit: "filter (owned_tag id' userId) (tags d) = t # ts"
    by (cases "filter (owned_tag id' userId) (tags d)") (auto simp add: list_ex_iff filter_empty_conv)
  then have run: "tag_DELETE (Some userId) id' d
           = (Inr (), d\<lparr>assetTags := filter (\<lambda>l. snd l \<noteq> id') (assetTags d),
                        tags := filter (\<lambda>t. tag_id t \<noteq> id') (tags d)\<rparr>)"
    by (simp add: tag_DELETE_def Let_def)
  show ?thesis
    unfolding run by auto
qed

theorem tag_DELETE_frame_witness:
  "tag_DELETE (Some ''u1'') ''t1'' demo_db
     = (Inr (), \<lparr>assets = [demo_asset], assetTags = [], tags = [], personalAccessTokens = []\<rparr>)"
proof -
  have "list_ex (owned_tag ''t1'' ''u1'') (tags demo_db)"
    by (simp add: demo_db_def demo_tag_def owned_tag_def)
  from tag_DELETE_frame [OF this] show ?thesis
    by (simp add: demo_db_def demo_tag_def)
qed

subsection \<open>C6: deleting an asset\<close>

text \<open>
  C6. Deleting an owned asset asks the storage provider to remove its primary object
  and, when the row has a preview bucket and path, its preview object (both, in that
  order). Whatever the provider answers (\<open>e\<close> is arbitrary, so either removal may fail),
  the asset's tag links and the asset row are deleted and the response is the success.
\<close>

theorem asset_DELETE_best_effort:
  assumes "filter (owned_asset id' userId) (assets d) = a # rest"
  shows "fst (asset_DELETE e (Some userId) id' d s) = Inr ()
         \<and> fst (snd (asset_DELETE e (Some userId) id' d s))
             = d\<lparr>assetTags := filter (\<lambda>l. fst l \<noteq> id') (assetTags d),
                 assets := filter (\<lambda>a. asset_id a \<noteq> id') (assets d)\<rparr>
         \<and> remove_log (snd (snd (asset_DELETE e (Some userId) id' d s)))
             = remove_log s @ removals_of a
         \<and> (previewBucket a = Some b \<and> previewPath a = Some p \<and> b \<noteq> [] \<and> p \<noteq> []
              \<longrightarrow> removals_of a = [(storageBucket a, storagePath a), (b, p)])"
  using assms
  by (simp add: asset_DELETE_def Let_def deleteFile_def removals_of_def
      split: option.splits)

theorem asset_DELETE_best_effort_witness:
  "remove_fails demo_env ''assets'' ''u1/1700-i-my_ad.png''
   \<and> remove_fails demo_env ''previews'' ''previews/u1/1701-4fzyo8-preview-my_ad.png''
   \<and> fst (asset_DELETE demo_env (Some ''u1'') ''a1'' demo_db demo_storage) = Inr ()
   \<and> fst (snd (asset_DELETE demo_env (Some ''u1'') ''a1'' demo_db demo_storage))
       = \<lparr>assets = [], assetTags = [], tags = [demo_tag], personalAccessTokens = []\<rparr>
   \<and> remove_log (snd (snd (asset_DELETE demo_env (Some ''u1'') ''a1'' demo_db demo_storage)))
       = [(''assets'', ''u1/1700-i-my_ad.png''),
          (''previews'', ''previews/u1/1701-4fzyo8-preview-my_ad.png'')]"
proof -
  have hit: "filter (owned_asset ''a1'' ''u1'') (assets demo_db) = demo_asset # []"
    by (simp add: demo_db_def demo_asset_def owned_asset_def web_init_row_def demo_draw_def)
  have paths: "removals_of demo_asset = [(''assets'', ''u1/1700-i-my_ad.png''),
                         (''previews'', ''previews/u1/1701-4fzyo8-preview-my_ad.png'')]"
    by (simp add: removals_of_def demo_asset_def web_init_row_def generateAssetPath_def
        demo_draw_def show_nat_1700 show_nat_1701 randomSuffix_def sanitize_def safe_char_def
        ASSETS_BUCKET_def PREVIEWS_BUCKET_def)
  have rf: "remove_fails demo_env ''assets'' ''u1/1700-i-my_ad.png''
   \<and> remove_fails demo_env ''previews'' ''previews/u1/1701-4fzyo8-preview-my_ad.png''"
    by (simp add: demo_env_def)
  from asset_DELETE_best_effort [OF hit, of demo_env demo_storage] paths rf
  show ?thesis
    by (simp add: demo_db_def demo_storage_def demo_asset_def web_init_row_def demo_draw_def)
qed

subsection \<open>Finalize: helper lemmas\<close>

lemma show_nat_0: "show_nat 0 = ''0''"
  by (simp add: show_nat.simps digit_char_def)




lemma owned_finalize_update [simp]:
  "owned_asset i u (finalize_update ts now body a) = owned_asset i u a"
  by (simp add: owned_asset_def finalize_update_def)

lemma finalize_upload_POST_hit:
  assumes "str_or_null (fb_assetId body) = Some aid"
    and "filter (owned_asset aid u) (assets d) = a # rest"
    and "finalize_fits body"
  shows "finalize_upload_POST ts now (Some u) body d
           = (Inr (finalize_update ts now body a),
              d\<lparr>assets := map (\<lambda>x. if owned_asset aid u x then finalize_update ts now body x else x)
                               (assets d)\<rparr>)"
  using assms by (simp add: finalize_upload_POST_def Let_def)

lemma finalize_upload_POST_Inr:
  assumes "finalize_upload_POST ts now (Some u) body d = (Inr a', d')"
  obtains aid a rest where
    "str_or_null (fb_assetId body) = Some aid"
    "filter (owned_asset aid u) (assets d) = a # rest"
    "a' = finalize_update ts now body a"
    "d' = d\<lparr>assets := map (\<lambda>x. if owned_asset aid u x then finalize_update ts now body x else x)
                               (assets d)\<rparr>"
proof (cases "str_or_null (fb_assetId body)")
  case None
  with assms show ?thesis by (simp add: finalize_upload_POST_def)
next
  case (Some aid)
  have fits: "finalize_fits body"
  proof (rule ccontr)
    assume "\<not> finalize_fits body"
    with assms Some show False by (simp add: finalize_upload_POST_def)
  qed
  show ?thesis
  proof (cases "filter (owned_asset aid u) (assets d)")
    case Nil
    with assms Some fits show ?thesis by (simp add: finalize_upload_POST_def Let_def)
  next
    case (Cons a rest)
    from finalize_upload_POST_hit [OF Some Cons fits, of ts now] assms
    have "a' = finalize_update ts now body a"
      and "d' = d\<lparr>assets := map (\<lambda>x. if owned_asset aid u x then finalize_update ts now body x else x)
                               (assets d)\<rparr>"
      by simp_all
    with Some Cons that show ?thesis by blast
  qed
qed

lemma ext_finalize_update_keeps [simp]:
  "owned_asset i u (ext_finalize_update ts now body a) = owned_asset i u a"
  by (simp add: owned_asset_def ext_finalize_update_def)

lemma extension_finalize_POST_Inr:
  assumes "extension_finalize_POST e ts now h body d = (Inr a', d')"
  obtains owner aid a rest where
    "fst (verifyPAT_finalize e h d) = Some owner"
    "str_or_null (xf_assetId body) = Some aid"
    "filter (owned_asset aid owner) (assets d) = a # rest"
    "a' = ext_finalize_update ts now body a"
    "assets d' = map (\<lambda>x. if owned_asset aid owner x then ext_finalize_update ts now body x else x)
                   (assets d)"
proof -
  obtain o' d0 where v: "verifyPAT_finalize e h d = (o', d0)"
    by (cases "verifyPAT_finalize e h d")
  then have d0: "d0 = d"
    by (auto simp add: verifyPAT_finalize_def split: option.splits if_splits list.splits)
  show ?thesis
  proof (cases "str_or_null o'")
    case None
    with assms v show ?thesis by (simp add: extension_finalize_POST_def)
  next
    case (Some owner)
    then have o': "o' = Some owner"
      by (simp add: str_or_null_def split: if_splits)
    note ow = Some
    show ?thesis
    proof (cases "str_or_null (xf_assetId body)")
      case None
      with assms v ow show ?thesis by (simp add: extension_finalize_POST_def)
    next
      case (Some aid)
      note ai = this
      have fits: "ext_finalize_fits body"
      proof (rule ccontr)
        assume "\<not> ext_finalize_fits body"
        with assms v ow ai show False by (simp add: extension_finalize_POST_def)
      qed
      show ?thesis
      proof (cases "filter (owned_asset aid owner) (assets d)")
        case Nil
        with assms v ow ai d0 fits show ?thesis by (simp add: extension_finalize_POST_def Let_def)
      next
        case (Cons a rest)
        from assms v ow ai d0 Cons fits
        have "a' = ext_finalize_update ts now body a"
          and "assets d' = map (\<lambda>x. if owned_asset aid owner x then ext_finalize_update ts now body x else x)
                   (assets d)"
          by (auto simp add: extension_finalize_POST_def Let_def split: option.splits)
        with v o' ai Cons that show ?thesis by simp
      qed
    qed
  qed
qed

lemma filter_hd_mem:
  assumes "filter P xs = a # rest"
  shows "a \<in> set xs \<and> P a"
proof -
  have "a \<in> set (filter P xs)"
    using assms by simp
  then show ?thesis by simp
qed

lemma demo_web_finalize_runs:
  "\<exists>a' d'. finalize_upload_POST show_int 1800 (Some ''u1'') demo_finalize_body demo_db2 = (Inr a', d')"
  by (simp add: finalize_upload_POST_def demo_finalize_body_def demo_db2_def demo_asset_def
      finalize_fits_def int4_ok_def int8_ok_def num_or_null_def truthy_num_def
      web_init_row_def demo_draw_def owned_asset_def str_or_null_def truthy_str_def Let_def)

lemma demo_matching_pats:
  "matching_pats demo_env ''adstash_demo'' demo_db2 = [demo_pat]"
  by (simp add: matching_pats_def demo_env_def demo_db2_def demo_pat_def)

lemma demo_ext_finalize_runs:
  "\<exists>a' d'. extension_finalize_POST demo_env show_int 1800 (Some ''Bearer adstash_demo'')
             demo_ext_finalize_body demo_db2 = (Inr a', d')"
  by (simp add: extension_finalize_POST_def verifyPAT_finalize_def startsWith_def demo_matching_pats)
     (simp add: demo_ext_finalize_body_def demo_db2_def demo_asset_def demo_pat_def
      ext_finalize_fits_def int4_ok_def num_or_null_def truthy_num_def
      web_init_row_def demo_draw_def owned_asset_def str_or_null_def truthy_str_def Let_def)

subsection \<open>C3: init, then finalize\<close>




subsection \<open>C10: what finalize writes\<close>

text \<open>
  C10 (as amended). A successful finalize on the web route sets the status to \<open>ready\<close> and
  overwrites width, height, sha256, sizeBytes and notes with the request's value when it
  is truthy and with null otherwise (omitted, 0 or the empty string), whatever the row
  held before; durationSeconds becomes the number's string when a number is given (also
  for 0, whose string is not empty) and null when it is omitted. The extension's route
  does the same for width, height, durationSeconds and sha256 and leaves sizeBytes and
  notes as they were.
\<close>

theorem finalize_overwrites:
  "(finalize_upload_POST toString now (Some userId) body d = (Inr a', d') \<longrightarrow>
      (\<exists>a. a \<in> set (assets d) \<and> a' \<in> set (assets d')
          \<and> asset_id a = asset_id a' \<and> ownerId a = userId \<and> ownerId a' = userId
          \<and> fb_assetId body = Some (asset_id a')
          \<and> status a' = Ready
          \<and> width a' = (if fb_width body = Some 0 then None else fb_width body)
          \<and> height a' = (if fb_height body = Some 0 then None else fb_height body)
          \<and> durationSeconds a'
              = (case fb_durationSeconds body of
                   None \<Rightarrow> None
                 | Some x \<Rightarrow> if toString x = [] then None else Some (toString x))
          \<and> sha256 a' = (if fb_sha256 body = Some [] then None else fb_sha256 body)
          \<and> sizeBytes a' = (if fb_sizeBytes body = Some 0 then None else fb_sizeBytes body)
          \<and> asset_notes a' = (if fb_notes body = Some [] then None else fb_notes body)))
   \<and> (extension_finalize_POST e toString now authHeader xbody d = (Inr a', d') \<longrightarrow>
      (\<exists>a. a \<in> set (assets d) \<and> a' \<in> set (assets d')
          \<and> asset_id a = asset_id a' \<and> ownerId a = ownerId a'
          \<and> fst (verifyPAT_finalize e authHeader d) = Some (ownerId a')
          \<and> xf_assetId xbody = Some (asset_id a')
          \<and> status a' = Ready
          \<and> width a' = (if xf_width xbody = Some 0 then None else xf_width xbody)
          \<and> height a' = (if xf_height xbody = Some 0 then None else xf_height xbody)
          \<and> durationSeconds a'
              = (case xf_durationSeconds xbody of
                   None \<Rightarrow> None
                 | Some x \<Rightarrow> if toString x = [] then None else Some (toString x))
          \<and> sha256 a' = (if xf_sha256 xbody = Some [] then None else xf_sha256 xbody)
          \<and> sizeBytes a' = sizeBytes a
          \<and> asset_notes a' = asset_notes a))"
proof (intro conjI impI)
  assume "finalize_upload_POST toString now (Some userId) body d = (Inr a', d')"
  then obtain aid a rest where
    aid: "str_or_null (fb_assetId body) = Some aid"
    and hit: "filter (owned_asset aid userId) (assets d) = a # rest"
    and a': "a' = finalize_update toString now body a"
    and d': "d' = d\<lparr>assets := map (\<lambda>x. if owned_asset aid userId x
                                       then finalize_update toString now body x else x) (assets d)\<rparr>"
    by (rule finalize_upload_POST_Inr)
  from filter_hd_mem [OF hit] have mem: "a \<in> set (assets d)" and own: "owned_asset aid userId a"
    by simp_all
  have "a' \<in> set (assets d')"
    using mem own a' d' by (auto simp add: image_iff intro!: bexI [of _ a])
  moreover have "fb_assetId body = Some (asset_id a')"
    using aid own a' by (auto simp add: str_or_null_def owned_asset_def finalize_update_def split: if_splits)
  moreover have "asset_id a = asset_id a'" "ownerId a = userId" "ownerId a' = userId"
    using own a' by (simp_all add: owned_asset_def finalize_update_def)
  moreover have "status a' = Ready"
    "width a' = (if fb_width body = Some 0 then None else fb_width body)"
    "height a' = (if fb_height body = Some 0 then None else fb_height body)"
    "sizeBytes a' = (if fb_sizeBytes body = Some 0 then None else fb_sizeBytes body)"
    using a' by (auto simp add: finalize_update_def num_or_null_def truthy_num_def split: option.splits)
  moreover have "sha256 a' = (if fb_sha256 body = Some [] then None else fb_sha256 body)"
    "asset_notes a' = (if fb_notes body = Some [] then None else fb_notes body)"
    "durationSeconds a'
              = (case fb_durationSeconds body of
                   None \<Rightarrow> None
                 | Some x \<Rightarrow> if toString x = [] then None else Some (toString x))"
    using a' by (auto simp add: finalize_update_def str_or_null_def truthy_str_def split: option.splits)
  ultimately show "\<exists>a. a \<in> set (assets d) \<and> a' \<in> set (assets d')
          \<and> asset_id a = asset_id a' \<and> ownerId a = userId \<and> ownerId a' = userId
          \<and> fb_assetId body = Some (asset_id a')
          \<and> status a' = Ready
          \<and> width a' = (if fb_width body = Some 0 then None else fb_width body)
          \<and> height a' = (if fb_height body = Some 0 then None else fb_height body)
          \<and> durationSeconds a'
              = (case fb_durationSeconds body of
                   None \<Rightarrow> None
                 | Some x \<Rightarrow> if toString x = [] then None else Some (toString x))
          \<and> sha256 a' = (if fb_sha256 body = Some [] then None else fb_sha256 body)
          \<and> sizeBytes a' = (if fb_sizeBytes body = Some 0 then None else fb_sizeBytes body)
          \<and> asset_notes a' = (if fb_notes body = Some [] then None else fb_notes body)"
    using mem by blast
next
  assume "extension_finalize_POST e toString now authHeader xbody d = (Inr a', d')"
  then obtain owner aid a rest where
    v: "fst (verifyPAT_finalize e authHeader d) = Some owner"
    and aid: "str_or_null (xf_assetId xbody) = Some aid"
    and hit: "filter (owned_asset aid owner) (assets d) = a # rest"
    and a': "a' = ext_finalize_update toString now xbody a"
    and d': "assets d' = map (\<lambda>x. if owned_asset aid owner x
                                  then ext_finalize_update toString now xbody x else x) (assets d)"
    by (rule extension_finalize_POST_Inr)
  from filter_hd_mem [OF hit] have mem: "a \<in> set (assets d)" and own: "owned_asset aid owner a"
    by simp_all
  have "a' \<in> set (assets d')"
    using mem own a' d' by (auto simp add: image_iff intro!: bexI [of _ a])
  moreover have "xf_assetId xbody = Some (asset_id a')"
    using aid own a' by (auto simp add: str_or_null_def owned_asset_def ext_finalize_update_def split: if_splits)
  moreover have "asset_id a = asset_id a'" "ownerId a = ownerId a'"
    "fst (verifyPAT_finalize e authHeader d) = Some (ownerId a')"
    "sizeBytes a' = sizeBytes a" "asset_notes a' = asset_notes a"
    using own a' v by (simp_all add: owned_asset_def ext_finalize_update_def)
  moreover have "status a' = Ready"
    "width a' = (if xf_width xbody = Some 0 then None else xf_width xbody)"
    "height a' = (if xf_height xbody = Some 0 then None else xf_height xbody)"
    using a' by (auto simp add: ext_finalize_update_def num_or_null_def truthy_num_def split: option.splits)
  moreover have "sha256 a' = (if xf_sha256 xbody = Some [] then None else xf_sha256 xbody)"
    "durationSeconds a'
              = (case xf_durationSeconds xbody of
                   None \<Rightarrow> None
                 | Some x \<Rightarrow> if toString x = [] then None else Some (toString x))"
    using a' by (auto simp add: ext_finalize_update_def str_or_null_def truthy_str_def split: option.splits)
  ultimately show "\<exists>a. a \<in> set (assets d) \<and> a' \<in> set (assets d')
          \<and> asset_id a = asset_id a' \<and> ownerId a = ownerId a'
          \<and> fst (verifyPAT_finalize e authHeader d) = Some (ownerId a')
          \<and> xf_assetId xbody = Some (asset_id a')
          \<and> status a' = Ready
          \<and> width a' = (if xf_width xbody = Some 0 then None else xf_width xbody)
          \<and> height a' = (if xf_height xbody = Some 0 then None else xf_height xbody)
          \<and> durationSeconds a'
              = (case xf_durationSeconds xbody of
                   None \<Rightarrow> None
                 | Some x \<Rightarrow> if toString x = [] then None else Some (toString x))
          \<and> sha256 a' = (if xf_sha256 xbody = Some [] then None else xf_sha256 xbody)
          \<and> sizeBytes a' = sizeBytes a
          \<and> asset_notes a' = asset_notes a"
    using mem by blast
qed


theorem finalize_overwrites_witness:
  "(\<exists>a' d'. finalize_upload_POST show_int 1800 (Some ''u1'') demo_finalize_body demo_db2 = (Inr a', d')
       \<and> status a' = Ready \<and> width a' = Some 800 \<and> height a' = Some 600
       \<and> durationSeconds a' = Some ''0'' \<and> sha256 a' = None \<and> sizeBytes a' = None
       \<and> asset_notes a' = None)
   \<and> (\<exists>a' d'. extension_finalize_POST demo_env show_int 1800 (Some ''Bearer adstash_demo'')
             demo_ext_finalize_body demo_db2 = (Inr a', d')
       \<and> status a' = Ready \<and> width a' = Some 800 \<and> height a' = Some 600
       \<and> durationSeconds a' = None \<and> sizeBytes a' = Some 2048)"
proof -
  obtain a1 d1 where r1:
    "finalize_upload_POST show_int 1800 (Some ''u1'') demo_finalize_body demo_db2 = (Inr a1, d1)"
    using demo_web_finalize_runs by blast
  obtain a2 d2 where r2:
    "extension_finalize_POST demo_env show_int 1800 (Some ''Bearer adstash_demo'')
             demo_ext_finalize_body demo_db2 = (Inr a2, d2)"
    using demo_ext_finalize_runs by blast
  have f1: "status a1 = Ready \<and> width a1 = Some 800 \<and> height a1 = Some 600
       \<and> durationSeconds a1 = Some ''0'' \<and> sha256 a1 = None \<and> sizeBytes a1 = None
       \<and> asset_notes a1 = None"
    using finalize_overwrites [of show_int 1800 "''u1''" demo_finalize_body demo_db2 a1 d1] r1
    by (auto simp add: demo_finalize_body_def show_int_def show_nat_0)
  have f2: "status a2 = Ready \<and> width a2 = Some 800 \<and> height a2 = Some 600
       \<and> durationSeconds a2 = None \<and> sizeBytes a2 = Some 2048"
    using finalize_overwrites [of show_int 1800 _ _ demo_db2 a2 d2 demo_env
        "Some ''Bearer adstash_demo''" demo_ext_finalize_body] r2
    by (auto simp add: demo_ext_finalize_body_def demo_db2_def)
  from r1 r2 f1 f2 show ?thesis by blast
qed

text \<open>
  C10 as stated fails twice: a duration of 0 is stored as the string \<open>0\<close>, not as null;
  and the extension's finalize does not touch sizeBytes.
\<close>

theorem finalize_overwrites_counterexample:
  "fb_durationSeconds demo_finalize_body = Some 0
   \<and> map durationSeconds (assets (snd (finalize_upload_POST show_int 1800 (Some ''u1'')
                                        demo_finalize_body demo_db2))) = [Some ''0'']
   \<and> map sizeBytes (assets demo_db2) = [Some 2048]
   \<and> map sizeBytes (assets (snd (extension_finalize_POST demo_env show_int 1800
                                  (Some ''Bearer adstash_demo'') demo_ext_finalize_body demo_db2)))
       = [Some 2048]"
proof -
  have "map durationSeconds (assets (snd (finalize_upload_POST show_int 1800 (Some ''u1'')
                                        demo_finalize_body demo_db2))) = [Some ''0'']"
    by (simp add: finalize_upload_POST_def demo_finalize_body_def demo_db2_def demo_asset_def
      finalize_fits_def int4_ok_def int8_ok_def num_or_null_def truthy_num_def
      web_init_row_def demo_draw_def owned_asset_def str_or_null_def truthy_str_def Let_def
      finalize_update_def show_int_def show_nat_0)
  moreover have "map sizeBytes (assets (snd (extension_finalize_POST demo_env show_int 1800
                                  (Some ''Bearer adstash_demo'') demo_ext_finalize_body demo_db2)))
       = [Some 2048]"
    by (simp add: extension_finalize_POST_def verifyPAT_finalize_def startsWith_def demo_matching_pats)
       (simp add: demo_ext_finalize_body_def demo_db2_def demo_asset_def demo_pat_def
      ext_finalize_fits_def int4_ok_def num_or_null_def truthy_num_def
      web_init_row_def demo_draw_def owned_asset_def str_or_null_def truthy_str_def Let_def
      ext_finalize_update_def)
  ultimately show ?thesis
    by (simp add: demo_finalize_body_def demo_db2_def)
qed

subsection \<open>Bearer tokens: helper lemmas\<close>

lemma matching_pats_empty:
  "(matching_pats e tok d = []) = (\<not> list_ex (\<lambda>p. tokenHash p = hashPAT e tok \<and> revokedAt p = None)
                                        (personalAccessTokens d))"
  by (auto simp add: matching_pats_def filter_empty_conv list_ex_iff)

lemma matching_pats_owner:
  assumes "matching_pats e tok d = p # ps"
    and "list_all (\<lambda>p. pat_ownerId p \<noteq> []) (personalAccessTokens d)"
  shows "pat_ownerId p \<noteq> []"
proof -
  have "p \<in> set (matching_pats e tok d)"
    using assms(1) by simp
  then have "p \<in> set (personalAccessTokens d)"
    by (simp add: matching_pats_def)
  with assms(2) show ?thesis
    by (simp add: list_all_iff)
qed

lemma verifyPAT_verify_result:
  assumes "list_all (\<lambda>p. pat_ownerId p \<noteq> []) (personalAccessTokens d)"
  shows "(str_or_null (fst (verifyPAT_verify e h d)) \<noteq> None) = bearer_matches e h d"
proof (cases h)
  case None
  then show ?thesis by (simp add: verifyPAT_verify_def bearer_matches_def str_or_null_def truthy_str_def)
next
  case (Some hd)
  show ?thesis
  proof (cases "matching_pats e (drop 7 hd) d")
    case Nil
    with Some matching_pats_empty [of e "drop 7 hd" d] show ?thesis
      by (simp add: verifyPAT_verify_def bearer_matches_def str_or_null_def truthy_str_def)
  next
    case (Cons p ps)
    with Some matching_pats_empty [of e "drop 7 hd" d] matching_pats_owner [OF Cons assms]
    show ?thesis
      by (simp add: verifyPAT_verify_def bearer_matches_def str_or_null_def truthy_str_def)
  qed
qed

lemma verifyPAT_same_owner:
  "fst (verifyPAT_init e now h d) = fst (verifyPAT_verify e h d)"
  "fst (verifyPAT_finalize e h d) = fst (verifyPAT_verify e h d)"
  by (simp_all add: verifyPAT_init_def verifyPAT_verify_def verifyPAT_finalize_def
      split: option.splits list.splits)

lemma extension_verify_GET_401:
  "(fst (extension_verify_GET e h d) = Inl Unauthorized)
     = (str_or_null (fst (verifyPAT_verify e h d)) = None)"
  by (cases "verifyPAT_verify e h d") (simp add: extension_verify_GET_def split: option.splits)

lemma extension_init_POST_401:
  "(fst (extension_init_POST e adm now dr h xb d) = Inl Unauthorized)
     = (str_or_null (fst (verifyPAT_init e now h d)) = None)"
proof (cases "verifyPAT_init e now h d")
  case (Pair o' d0)
  show ?thesis
  proof (cases "str_or_null o'")
    case None
    with Pair show ?thesis by (simp add: extension_init_POST_def)
  next
    case (Some owner)
    with Pair show ?thesis
      by (simp add: extension_init_POST_def Let_def split: option.splits prod.splits)
  qed
qed

lemma extension_finalize_POST_401:
  "(fst (extension_finalize_POST e ts now h fb d) = Inl Unauthorized)
     = (str_or_null (fst (verifyPAT_finalize e h d)) = None)"
proof (cases "verifyPAT_finalize e h d")
  case (Pair o' d0)
  show ?thesis
  proof (cases "str_or_null o'")
    case None
    with Pair show ?thesis by (simp add: extension_finalize_POST_def)
  next
    case (Some owner)
    with Pair show ?thesis
      by (simp add: extension_finalize_POST_def Let_def split: option.splits list.splits)
  qed
qed

subsection \<open>C4: when a bearer token authenticates\<close>

text \<open>
  C4. With owner ids that are not empty (they are uuids), a request passes the 401
  check of the verify route, of the extension's init route and of its finalize route
  exactly when its header is \<open>Bearer\<close>, a space and a token whose digest is the stored hash
  of a row whose revocation time is null. After the owner has deleted the token's row
  through DELETE /api/tokens/:id (the stored hash being that of no other row), a request
  with that token gets 401 on each of the three routes.
\<close>

theorem bearer_token_authenticates:
  assumes owners: "list_all (\<lambda>p. pat_ownerId p \<noteq> []) (personalAccessTokens d)"
  shows "(fst (extension_verify_GET e h d) \<noteq> Inl Unauthorized) = bearer_matches e h d
         \<and> (fst (extension_init_POST e adm now dr h xb d) \<noteq> Inl Unauthorized) = bearer_matches e h d
         \<and> (fst (extension_finalize_POST e ts now h fb d) \<noteq> Inl Unauthorized) = bearer_matches e h d
         \<and> (h = Some (''Bearer '' @ tok)
              \<and> list_all (\<lambda>q. tokenHash q \<noteq> hashPAT e tok \<or> (pat_id q = i \<and> pat_ownerId q = u))
                   (personalAccessTokens d)
            \<longrightarrow> fst (extension_verify_GET e h (snd (token_DELETE (Some u) i d))) = Inl Unauthorized
                \<and> fst (extension_init_POST e adm now dr h xb (snd (token_DELETE (Some u) i d)))
                    = Inl Unauthorized
                \<and> fst (extension_finalize_POST e ts now h fb (snd (token_DELETE (Some u) i d)))
                    = Inl Unauthorized)"
proof -
  have auth: "(str_or_null (fst (verifyPAT_verify e h d')) \<noteq> None) = bearer_matches e h d'"
    if "list_all (\<lambda>p. pat_ownerId p \<noteq> []) (personalAccessTokens d')" for d'
    using that by (rule verifyPAT_verify_result)
  have routes: "(fst (extension_verify_GET e h d') \<noteq> Inl Unauthorized) = bearer_matches e h d'
         \<and> (fst (extension_init_POST e adm now dr h xb d') \<noteq> Inl Unauthorized) = bearer_matches e h d'
         \<and> (fst (extension_finalize_POST e ts now h fb d') \<noteq> Inl Unauthorized) = bearer_matches e h d'"
    if "list_all (\<lambda>p. pat_ownerId p \<noteq> []) (personalAccessTokens d')" for d'
    using auth [OF that]
    by (simp add: extension_verify_GET_401 extension_init_POST_401 extension_finalize_POST_401
        verifyPAT_same_owner)
  let ?after = "snd (token_DELETE (Some u) i d)"
  have owners': "list_all (\<lambda>p. pat_ownerId p \<noteq> []) (personalAccessTokens ?after)"
    using owners by (simp add: token_DELETE_def list_all_iff)
  have gone: "\<not> bearer_matches e h ?after"
    if "h = Some (''Bearer '' @ tok)"
      and "list_all (\<lambda>q. tokenHash q \<noteq> hashPAT e tok \<or> (pat_id q = i \<and> pat_ownerId q = u))
                   (personalAccessTokens d)"
    using that by (auto simp add: bearer_matches_def token_DELETE_def list_all_iff list_ex_iff)
  show ?thesis
    using routes [OF owners] routes [OF owners'] gone by blast
qed

theorem bearer_token_authenticates_witness:
  "list_all (\<lambda>p. pat_ownerId p \<noteq> []) (personalAccessTokens demo_db2)
   \<and> bearer_matches demo_env (Some ''Bearer adstash_demo'') demo_db2
   \<and> fst (extension_verify_GET demo_env (Some ''Bearer adstash_demo'') demo_db2) \<noteq> Inl Unauthorized
   \<and> personalAccessTokens (snd (token_DELETE (Some ''u1'') ''p1'' demo_db2)) = []
   \<and> fst (extension_verify_GET demo_env (Some ''Bearer adstash_demo'')
            (snd (token_DELETE (Some ''u1'') ''p1'' demo_db2))) = Inl Unauthorized"
proof -
  have owners: "list_all (\<lambda>p. pat_ownerId p \<noteq> []) (personalAccessTokens demo_db2)"
    by (simp add: demo_db2_def demo_pat_def)
  have m: "bearer_matches demo_env (Some ''Bearer adstash_demo'') demo_db2"
    by (simp add: bearer_matches_def startsWith_def demo_db2_def demo_pat_def demo_env_def)
  have uniq: "list_all (\<lambda>q. tokenHash q \<noteq> hashPAT demo_env ''adstash_demo''
                              \<or> (pat_id q = ''p1'' \<and> pat_ownerId q = ''u1''))
                   (personalAccessTokens demo_db2)"
    by (simp add: demo_db2_def demo_pat_def)
  have del: "personalAccessTokens (snd (token_DELETE (Some ''u1'') ''p1'' demo_db2)) = []"
    by (simp add: token_DELETE_def demo_db2_def demo_pat_def)
  from bearer_token_authenticates [OF owners, of demo_env "Some ''Bearer adstash_demo''" True 1800
      demo_draw demo_ext_init_body show_int demo_ext_finalize_body "''adstash_demo''" "''p1''" "''u1''"]
    owners m uniq del
  show ?thesis by simp
qed


subsection \<open>C5: the last-used time\<close>

text \<open>
  C5, evaluated on the code. With a stored, non-revoked token the verify route and the
  extension's finalize route authenticate the request as the token's owner and leave the
  token's last-used time null; of the three routes only the extension's init route
  writes it.
\<close>

theorem verify_and_finalize_keep_lastUsedAt:
  "map lastUsedAt (personalAccessTokens demo_db2) = [None]
   \<and> extension_verify_GET demo_env (Some ''Bearer adstash_demo'') demo_db2 = (Inr ''u1'', demo_db2)
   \<and> (\<exists>row. fst (extension_finalize_POST demo_env show_int 1800 (Some ''Bearer adstash_demo'')
                      demo_ext_finalize_body demo_db2) = Inr row)
   \<and> map lastUsedAt (personalAccessTokens (snd (extension_finalize_POST demo_env show_int 1800
            (Some ''Bearer adstash_demo'') demo_ext_finalize_body demo_db2))) = [None]
   \<and> map lastUsedAt (personalAccessTokens (snd (extension_init_POST demo_env True 1800
            (demo_draw\<lparr>new_id := ''a2''\<rparr>) (Some ''Bearer adstash_demo'') demo_ext_init_body demo_db2)))
       = [Some 1800]"
proof -
  have a: "map lastUsedAt (personalAccessTokens demo_db2) = [None]"
    by (simp add: demo_db2_def demo_pat_def)
  have b: "extension_verify_GET demo_env (Some ''Bearer adstash_demo'') demo_db2 = (Inr ''u1'', demo_db2)"
    by (simp add: extension_verify_GET_def verifyPAT_verify_def startsWith_def demo_matching_pats)
       (simp add: demo_pat_def str_or_null_def truthy_str_def)
  have c: "\<exists>row. fst (extension_finalize_POST demo_env show_int 1800 (Some ''Bearer adstash_demo'')
                      demo_ext_finalize_body demo_db2) = Inr row"
    using demo_ext_finalize_runs by auto
  have d: "map lastUsedAt (personalAccessTokens (snd (extension_finalize_POST demo_env show_int 1800
            (Some ''Bearer adstash_demo'') demo_ext_finalize_body demo_db2))) = [None]"
    by (simp add: extension_finalize_POST_def verifyPAT_finalize_def startsWith_def demo_matching_pats)
       (simp add: demo_ext_finalize_body_def demo_db2_def demo_asset_def demo_pat_def
      ext_finalize_fits_def int4_ok_def num_or_null_def truthy_num_def
      web_init_row_def demo_draw_def owned_asset_def str_or_null_def truthy_str_def Let_def)
  have e: "map lastUsedAt (personalAccessTokens (snd (extension_init_POST demo_env True 1800
            (demo_draw\<lparr>new_id := ''a2''\<rparr>) (Some ''Bearer adstash_demo'') demo_ext_init_body demo_db2)))
       = [Some 1800]"
    by (simp add: extension_init_POST_def verifyPAT_init_def startsWith_def demo_matching_pats)
       (simp add: demo_ext_init_body_def demo_db2_def demo_asset_def demo_pat_def demo_draw_def
      web_init_row_def str_or_null_def truthy_str_def Let_def sign_uploads_def demo_env_def
      ext_init_row_def split: option.splits)
  from a b c d e show ?thesis by blast
qed

subsection \<open>Listing: helper lemmas\<close>

lemma assetsWithTags_iff:
  "a \<in> set (assetsWithTags links tagIds)
     \<longleftrightarrow> tagIds \<noteq> [] \<and> distinct tagIds \<and> (\<forall>t\<in>set tagIds. (a, t) \<in> set links)"
proof -
  let ?M = "{t \<in> set tagIds. (a, t) \<in> set links}"
  have set_eq: "set (map snd (filter (\<lambda>l. fst l = a) (filter (\<lambda>l. snd l \<in> set tagIds) links))) = ?M"
    by (auto simp add: image_iff)
  have len: "length (remdups (map snd (filter (\<lambda>l. fst l = a) (filter (\<lambda>l. snd l \<in> set tagIds) links))))
               = card ?M"
    by (simp only: length_remdups_card_conv set_eq)
  have grp: "a \<in> set (map fst (filter (\<lambda>l. snd l \<in> set tagIds) links)) \<longleftrightarrow> ?M \<noteq> {}"
    by (auto simp add: image_iff)
  have mem: "a \<in> set (assetsWithTags links tagIds) \<longleftrightarrow> ?M \<noteq> {} \<and> card ?M = length tagIds"
    unfolding assetsWithTags_def Let_def using len grp by auto
  have sub: "?M \<subseteq> set tagIds" by auto
  show ?thesis
  proof
    assume "a \<in> set (assetsWithTags links tagIds)"
    with mem have ne: "?M \<noteq> {}" and c: "card ?M = length tagIds" by simp_all
    have "card ?M \<le> card (set tagIds)"
      using sub by (simp add: card_mono)
    moreover have "card (set tagIds) \<le> length tagIds"
      by (rule card_length)
    ultimately have cs: "card (set tagIds) = length tagIds" and cm: "card (set tagIds) \<le> card ?M"
      using c by simp_all
    from cs have "distinct tagIds" by (rule card_distinct)
    moreover have "?M = set tagIds"
      using sub cm by (intro card_seteq) simp_all
    moreover from ne have "tagIds \<noteq> []" by auto
    ultimately show "tagIds \<noteq> [] \<and> distinct tagIds \<and> (\<forall>t\<in>set tagIds. (a, t) \<in> set links)"
      by auto
  next
    assume r: "tagIds \<noteq> [] \<and> distinct tagIds \<and> (\<forall>t\<in>set tagIds. (a, t) \<in> set links)"
    then have "?M = set tagIds" by auto
    moreover from r have "card (set tagIds) = length tagIds"
      by (simp add: distinct_card)
    moreover from r have "set tagIds \<noteq> {}" by simp
    ultimately show "a \<in> set (assetsWithTags links tagIds)"
      using mem by simp
  qed
qed

lemma set_newest_first [simp]: "set (newest_first xs) = set xs"
  by (simp add: newest_first_def)

lemma in_page_slice:
  "x \<in> set (take n (drop k (newest_first xs))) \<Longrightarrow> x \<in> set xs"
  using set_take_subset [of n "drop k (newest_first xs)"] set_drop_subset [of k "newest_first xs"]
  by auto

lemma assets_GET_items:
  assumes run: "assets_GET e (Some userId) params d = Inr page"
    and item: "item \<in> set (ap_assets page)"
  shows "li_asset item \<in> set (assets d)"
    and "list_all (\<lambda>c. cond_holds e c (li_asset item)) (buildWhereConditions e userId params)"
    and "qp_tagIds params \<noteq> [] \<Longrightarrow>
           asset_id (li_asset item) \<in> set (assetsWithTags (assetTags d) (qp_tagIds params))"
proof -
  let ?conds = "buildWhereConditions e userId params"
  let ?matching = "filter (\<lambda>a. list_all (\<lambda>c. cond_holds e c a) ?conds) (assets d)"
  let ?selected = "if qp_tagIds params \<noteq> []
                  then filter (\<lambda>a. asset_id a \<in> set (assetsWithTags (assetTags d) (qp_tagIds params)))
                         ?matching
                  else ?matching"
  let ?results = "take (nat (qp_limit params))
                    (drop (nat ((qp_page params - 1) * qp_limit params)) (newest_first ?selected))"
  from run have ok: "\<not> (\<not> list_all cond_valid ?conds \<or> qp_limit params < 0
                          \<or> (qp_page params - 1) * qp_limit params < 0)"
    by (auto simp add: assets_GET_def Let_def split: if_splits)
  with run have "ap_assets page
                   = addPreviewUrls e ?results (getAssetsWithTags d (map asset_id ?results))"
    by (auto simp add: assets_GET_def Let_def split: if_splits)
  with item have "li_asset item \<in> set ?results"
    by (auto simp add: addPreviewUrls_def)
  then have sel: "li_asset item \<in> set ?selected"
    by (rule in_page_slice)
  then show "li_asset item \<in> set (assets d)"
    and "list_all (\<lambda>c. cond_holds e c (li_asset item)) ?conds"
    by (auto split: if_splits)
  show "asset_id (li_asset item) \<in> set (assetsWithTags (assetTags d) (qp_tagIds params))"
    if "qp_tagIds params \<noteq> []"
    using sel that by simp
qed

lemma demo_assetsWithTags:
  "assetsWithTags (assetTags demo_db3) [''t1'', ''t2''] = [''a1'']"
  by (simp add: assetsWithTags_def demo_db3_def Let_def)

lemma demo_listing_runs:
  "\<exists>page item. assets_GET demo_env (Some ''u1'') demo_params demo_db3 = Inr page
       \<and> ap_assets page = [item] \<and> asset_id (li_asset item) = ''a1''"
  by (simp add: assets_GET_def demo_params_def buildWhereConditions_def Let_def demo_assetsWithTags)
     (simp add: demo_db3_def demo_asset_def web_init_row_def demo_draw_def demo_env_def
        newest_first_def addPreviewUrls_def)

subsection \<open>C2: the tag filter is an intersection\<close>

text \<open>
  C2. When the listing is asked for a non-empty list of tag ids, every asset on the
  returned page is linked to every requested tag id, so an asset that holds only some of
  them is never returned; the number of distinct requested tag ids among the asset's
  asset-tag rows equals the length of the requested list, which is the test the grouped
  sub-query makes.
\<close>

theorem tag_filter_intersection:
  assumes "assets_GET e (Some userId) params d = Inr page"
    and "qp_tagIds params \<noteq> []"
    and "item \<in> set (ap_assets page)"
  shows "(\<forall>t\<in>set (qp_tagIds params). (asset_id (li_asset item), t) \<in> set (assetTags d))
         \<and> length (remdups (map snd (filter (\<lambda>l. fst l = asset_id (li_asset item)
                                                  \<and> snd l \<in> set (qp_tagIds params))
                                        (assetTags d))))
             = length (qp_tagIds params)"
proof -
  let ?a = "asset_id (li_asset item)"
  have m: "?a \<in> set (assetsWithTags (assetTags d) (qp_tagIds params))"
    using assets_GET_items(3) [OF assms(1) assms(3) assms(2)] .
  then have all: "\<forall>t\<in>set (qp_tagIds params). (?a, t) \<in> set (assetTags d)"
    by (simp add: assetsWithTags_iff)
  have "filter (\<lambda>l. fst l = ?a \<and> snd l \<in> set (qp_tagIds params)) (assetTags d)
          = filter (\<lambda>l. fst l = ?a) (filter (\<lambda>l. snd l \<in> set (qp_tagIds params)) (assetTags d))"
    by (simp add: conj_commute)
  with m have "length (remdups (map snd (filter (\<lambda>l. fst l = ?a \<and> snd l \<in> set (qp_tagIds params))
                                        (assetTags d))))
             = length (qp_tagIds params)"
    by (simp add: assetsWithTags_def Let_def)
  with all show ?thesis by simp
qed


theorem tag_filter_intersection_witness:
  "(\<exists>page item. assets_GET demo_env (Some ''u1'') demo_params demo_db3 = Inr page
       \<and> ap_assets page = [item] \<and> asset_id (li_asset item) = ''a1'')
   \<and> (''a1'', ''t1'') \<in> set (assetTags demo_db3) \<and> (''a1'', ''t2'') \<in> set (assetTags demo_db3)
   \<and> (''a2'', ''t2'') \<notin> set (assetTags demo_db3)"
proof -
  obtain page item where run: "assets_GET demo_env (Some ''u1'') demo_params demo_db3 = Inr page"
    and items: "ap_assets page = [item]" and a1: "asset_id (li_asset item) = ''a1''"
    using demo_listing_runs by blast
  have ne: "qp_tagIds demo_params \<noteq> []" and ts: "set (qp_tagIds demo_params) = {''t1'', ''t2''}"
    by (auto simp add: demo_params_def)
  have "item \<in> set (ap_assets page)"
    using items by simp
  from tag_filter_intersection [OF run ne this] a1 ts
  have "(''a1'', ''t1'') \<in> set (assetTags demo_db3) \<and> (''a1'', ''t2'') \<in> set (assetTags demo_db3)"
    by simp
  moreover have "(''a2'', ''t2'') \<notin> set (assetTags demo_db3)"
    by (simp add: demo_db3_def)
  ultimately show ?thesis
    using demo_listing_runs by blast
qed

subsection \<open>The content script: the invariant of the passes\<close>

lemma seen_inv_push:
  "seen_inv sc \<Longrightarrow> c_url c \<notin> seenUrls sc \<Longrightarrow> seen_inv (push c sc)"
  by (auto simp add: seen_inv_def push_def)

lemma foldl_preserves:
  assumes "\<And>st x. P st \<Longrightarrow> P (f st x)" and "P s"
  shows "P (foldl f s xs)"
  using assms(2) by (induction xs arbitrary: s) (simp_all add: assms(1))

lemma scanImages_step_inv:
  "seen_inv (fst st) \<Longrightarrow> seen_inv (fst (scanImages_step st img))"
  by (simp add: scanImages_step_def Let_def seen_inv_push)

lemma scanImages_inv: "seen_inv sc \<Longrightarrow> seen_inv (scanImages pg sc)"
  unfolding scanImages_def
  by (rule foldl_preserves [where P = "\<lambda>st. seen_inv (fst st)"]) (simp_all add: scanImages_step_inv)

lemma scanBackgroundImages_step_inv:
  "seen_inv (fst st) \<Longrightarrow> seen_inv (fst (scanBackgroundImages_step en st bg))"
  by (simp add: scanBackgroundImages_step_def Let_def seen_inv_push split: option.splits)

lemma scanBackgroundImages_inv: "seen_inv sc \<Longrightarrow> seen_inv (scanBackgroundImages en pg sc)"
  unfolding scanBackgroundImages_def
  by (rule foldl_preserves [where P = "\<lambda>st. seen_inv (fst st)"])
     (simp_all add: scanBackgroundImages_step_inv)

lemma handleBlobVideo_inv: "seen_inv sc \<Longrightarrow> seen_inv (handleBlobVideo video i sc)"
  by (simp add: handleBlobVideo_def Let_def seen_inv_push)

lemma scanVideos_step_inv:
  "seen_inv (fst st) \<Longrightarrow> seen_inv (fst (scanVideos_step st video))"
  by (simp add: scanVideos_step_def Let_def seen_inv_push handleBlobVideo_inv)

lemma scanVideos_inv: "seen_inv sc \<Longrightarrow> seen_inv (scanVideos pg sc)"
  unfolding scanVideos_def
  by (rule foldl_preserves [where P = "\<lambda>st. seen_inv (fst st)"]) (simp_all add: scanVideos_step_inv)

lemma instagram_loop_inv:
  "seen_inv sc \<Longrightarrow> seen_inv (fst (instagram_loop en i ty ms sc))"
proof (induction ms arbitrary: sc)
  case Nil
  then show ?case by simp
next
  case (Cons m ms)
  show ?case
  proof (cases "json_unescape en m")
    case None
    with Cons.prems show ?thesis by simp
  next
    case (Some url)
    have "seen_inv (if url \<notin> seenUrls sc then push (bare i ty url) sc else sc)"
      using Cons.prems by (simp add: seen_inv_push bare_def)
    from Cons.IH [OF this] Some show ?thesis by simp
  qed
qed

lemma scanInstagramMedia_inv:
  "seen_inv sc \<Longrightarrow> seen_inv (scanInstagramMedia en scripts sc)"
proof (induction scripts arbitrary: sc)
  case Nil
  then show ?case by simp
next
  case (Cons scr scripts)
  obtain sc1 ok1 where l1:
    "instagram_loop en IgVideoId Video (instagram_video_matches en scr) sc = (sc1, ok1)"
    by (cases "instagram_loop en IgVideoId Video (instagram_video_matches en scr) sc")
  obtain sc2 ok2 where l2:
    "instagram_loop en IgImageId Image (instagram_image_matches en scr) sc1 = (sc2, ok2)"
    by (cases "instagram_loop en IgImageId Image (instagram_image_matches en scr) sc1")
  have i1: "seen_inv sc1"
    using instagram_loop_inv [OF Cons.prems, of en IgVideoId Video "instagram_video_matches en scr"] l1
    by simp
  have i2: "seen_inv sc2"
    using instagram_loop_inv [OF i1, of en IgImageId Image "instagram_image_matches en scr"] l2
    by simp
  show ?case
    using l1 l2 i1 i2 Cons.IH [OF i2] by simp
qed

lemma tiktok_step_inv: "seen_inv sc \<Longrightarrow> seen_inv (tiktok_step en sc m)"
  by (simp add: tiktok_step_def seen_inv_push bare_def split: option.splits)

lemma scanTikTokMedia_inv: "seen_inv sc \<Longrightarrow> seen_inv (scanTikTokMedia en scripts sc)"
  unfolding scanTikTokMedia_def
  by (rule foldl_preserves [where P = seen_inv])
     (simp_all add: foldl_preserves [where P = seen_inv] tiktok_step_inv)

lemma scanPlatformSpecificMedia_inv:
  "seen_inv sc \<Longrightarrow> seen_inv (scanPlatformSpecificMedia en pg sc)"
  by (simp add: scanPlatformSpecificMedia_def Let_def scanInstagramMedia_inv scanTikTokMedia_inv)

lemma demo_page_candidates:
  "map c_url (cr_candidates (getCandidates demo_engine demo_page))
     = [''https://cdn/x.jpg'', ''https://cdn/bg.png'', ''https://cdn/y.jpg'']"
  by (simp add: getCandidates_def scanImages_def scanBackgroundImages_def scanVideos_def
      scanPlatformSpecificMedia_def scanTikTokMedia_def demo_page_def demo_engine_def
      scanImages_step_def scanBackgroundImages_step_def scanVideos_step_def handleBlobVideo_def
      getVideoUrl_def push_def bare_def or_str_def nonempty_def nonzero_def startsWith_def Let_def)

subsection \<open>C9: the candidates have pairwise distinct URLs\<close>

text \<open>
  C9. Whatever the page and the engine, the URLs of the candidates that
  \<open>getCandidates\<close> returns are pairwise distinct: every pass tests the one shared set of
  seen URLs before it pushes a candidate and adds the URL when it pushes.
\<close>

theorem getCandidates_distinct:
  "distinct (map c_url (cr_candidates (getCandidates en pg)))"
proof -
  have "seen_inv \<lparr>candidates = [], seenUrls = {}\<rparr>"
    by (simp add: seen_inv_def)
  then have "seen_inv (scanPlatformSpecificMedia en pg
                (scanVideos pg (scanBackgroundImages en pg
                   (scanImages pg \<lparr>candidates = [], seenUrls = {}\<rparr>))))"
    by (intro scanPlatformSpecificMedia_inv scanVideos_inv scanBackgroundImages_inv scanImages_inv)
  then show ?thesis
    by (simp add: getCandidates_def Let_def seen_inv_def)
qed

theorem getCandidates_distinct_witness:
  "length (page_images demo_page) + length (page_backgrounds demo_page)
     + length (page_videos demo_page) + length (page_json_scripts demo_page) = 7
   \<and> map c_url (cr_candidates (getCandidates demo_engine demo_page))
       = [''https://cdn/x.jpg'', ''https://cdn/bg.png'', ''https://cdn/y.jpg'']
   \<and> distinct (map c_url (cr_candidates (getCandidates demo_engine demo_page)))"
  using getCandidates_distinct [of demo_engine demo_page] demo_page_candidates
  by (simp add: demo_page_def)

subsection \<open>C1: owner isolation\<close>

text \<open>
  C1, evaluated on the code. The tag t2 belongs to owner u2. Owner u1 sends a PATCH for
  its own asset a2 with \<open>tagIds = [t2]\<close>: the handler answers with the asset and has
  inserted the asset-tag row (a2, t2) without looking at the tag's owner. Owner u1 then
  sends a GET for a2: the query for the asset's tags joins \<open>asset_tags\<close> with \<open>tags\<close> on the
  asset id alone, and the response carries the tag row of u2.
\<close>

theorem patch_then_get_returns_foreign_tag:
  "map (\<lambda>t. (tag_id t, tag_ownerId t)) (tags demo_db3) = [(''t1'', ''u1''), (''t2'', ''u2'')]
   \<and> (\<exists>row. fst (asset_PATCH 1900 (Some ''u1'') ''a2'' demo_patch demo_db3) = Inr row)
   \<and> (''a2'', ''t2'') \<notin> set (assetTags demo_db3)
   \<and> (''a2'', ''t2'') \<in> set (assetTags (snd (asset_PATCH 1900 (Some ''u1'') ''a2'' demo_patch demo_db3)))
   \<and> (\<exists>r. asset_GET demo_env (Some ''u1'') ''a2''
               (snd (asset_PATCH 1900 (Some ''u1'') ''a2'' demo_patch demo_db3)) = Inr r
          \<and> map (\<lambda>t. (tag_id t, tag_ownerId t, tag_name t)) (ad_tags r)
              = [(''t2'', ''u2'', ''secret'')])"
proof -
  have hit: "filter (owned_asset ''a2'' ''u1'') (assets demo_db3)
               = [demo_asset\<lparr>asset_id := ''a2'', status := Ready, createdAt := 1800\<rparr>]"
    by (simp add: demo_db3_def owned_asset_def demo_asset_def web_init_row_def demo_draw_def)
  have patch: "asset_PATCH 1900 (Some ''u1'') ''a2'' demo_patch demo_db3
      = (Inr (patch_update 1900 demo_patch (demo_asset\<lparr>asset_id := ''a2'', status := Ready, createdAt := 1800\<rparr>)),
         demo_db3\<lparr>assets := [demo_asset\<lparr>status := Ready\<rparr>,
                               patch_update 1900 demo_patch
                                 (demo_asset\<lparr>asset_id := ''a2'', status := Ready, createdAt := 1800\<rparr>)],
                   assetTags := [(''a1'', ''t1''), (''a1'', ''t2''), (''a2'', ''t2'')]\<rparr>)"
    using hit
    by (simp add: asset_PATCH_def Let_def demo_patch_def)
       (simp add: demo_db3_def owned_asset_def demo_asset_def web_init_row_def demo_draw_def)
  have hit': "\<not> owned_asset ''a2'' ''u1'' (demo_asset\<lparr>status := Ready\<rparr>)"
    "owned_asset ''a2'' ''u1''
       (patch_update 1900 demo_patch
          (demo_asset\<lparr>asset_id := ''a2'', status := Ready, createdAt := 1800\<rparr>))"
    by (simp_all add: owned_asset_def demo_asset_def web_init_row_def demo_draw_def patch_update_def)
  have join: "join_tags (demo_db3\<lparr>assets := xs,
                   assetTags := [(''a1'', ''t1''), (''a1'', ''t2''), (''a2'', ''t2'')]\<rparr>) (\<lambda>a. a = ''a2'')
                = [(''a2'', demo_tag\<lparr>tag_id := ''t2'', tag_ownerId := ''u2'', tag_name := ''secret''\<rparr>)]" for xs
    by (simp add: join_tags_def demo_db3_def demo_tag_def)
  have "\<exists>r. asset_GET demo_env (Some ''u1'') ''a2''
               (snd (asset_PATCH 1900 (Some ''u1'') ''a2'' demo_patch demo_db3)) = Inr r
          \<and> map (\<lambda>t. (tag_id t, tag_ownerId t, tag_name t)) (ad_tags r)
              = [(''t2'', ''u2'', ''secret'')]"
    by (simp add: patch asset_GET_def hit' join)
  moreover have "(''a2'', ''t2'') \<notin> set (assetTags demo_db3)"
    by (simp add: demo_db3_def)
  moreover have "map (\<lambda>t. (tag_id t, tag_ownerId t)) (tags demo_db3) = [(''t1'', ''u1''), (''t2'', ''u2'')]"
    by (simp add: demo_db3_def demo_tag_def)
  ultimately show ?thesis
    by (simp add: patch)
qed

end
